theory Spec2Isabelle
  imports Complex_Main "HOL-Library.Log_Nat"
begin

section \<open>The search service of the photo-management backend\<close>

text \<open>
  A shallow embedding of \<^verbatim>\<open>src/server/src/services/search.service.ts\<close>
  (class \<^verbatim>\<open>SearchService\<close>). The service is an orchestration layer: every
  method awaits a sequence of calls to injected repositories and reshapes what they
  return. A method is modelled as a function from what the repositories answer (the
  record \<open>env\<close>) to the ordered list of calls it makes together with its outcome,
  a thrown error or a returned value.
\<close>

subsection \<open>JavaScript values\<close>

text \<open>
  An optional property (\<^verbatim>\<open>string | undefined\<close>, \<^verbatim>\<open>string | null\<close>) is an
  \<open>option\<close>. Truthiness follows JavaScript: \<^verbatim>\<open>undefined\<close>, \<^verbatim>\<open>null\<close>,
  the empty string, \<^verbatim>\<open>false\<close> and \<^verbatim>\<open>0\<close> are falsy.
\<close>

definition truthy_string :: "string option \<Rightarrow> bool" where
  "truthy_string s = (case s of None \<Rightarrow> False | Some x \<Rightarrow> x \<noteq> [])"

definition truthy_boolean :: "bool option \<Rightarrow> bool" where
  "truthy_boolean b = (case b of None \<Rightarrow> False | Some x \<Rightarrow> x)"

text \<open>\<^verbatim>\<open>a || b\<close> on optional strings and \<^verbatim>\<open>n || d\<close> on an optional number.\<close>

definition or_string :: "string option \<Rightarrow> string option \<Rightarrow> string option" where
  "or_string a b = (if truthy_string a then a else b)"

definition or_number :: "int option \<Rightarrow> int \<Rightarrow> int" where
  "or_number n d = (case n of None \<Rightarrow> d | Some x \<Rightarrow> if x \<noteq> 0 then x else d)"

text \<open>\<^verbatim>\<open>a ?? b\<close>: only \<^verbatim>\<open>undefined\<close> and \<^verbatim>\<open>null\<close> give way to \<open>b\<close>.\<close>

definition nullish :: "'a option \<Rightarrow> 'a \<Rightarrow> 'a" where
  "nullish a b = (case a of None \<Rightarrow> b | Some x \<Rightarrow> x)"

text \<open>
  A JavaScript number is a double. The numbers this service computes with are page
  numbers, sizes and lengths; they are modelled on their integer values, an integer-valued
  double being the \<open>int\<close> it denotes. Fractions, \<^verbatim>\<open>NaN\<close> and the infinities are
  outside the model.

  \<open>round_double\<close> is the rounding of an exact integer result to the nearest double,
  ties to the even significand: integers of at most 53 bits are doubles, a longer one
  keeps its leading 53 bits. (A sum of two doubles of which one is 1 stays below the
  largest double, so the overflow to infinity does not arise.)
\<close>

fun bit_length :: "nat \<Rightarrow> nat" where
  "bit_length n = (if n = 0 then 0 else Suc (bit_length (n div 2)))"

declare bit_length.simps [simp del]

definition round_double :: "int \<Rightarrow> int" where
  "round_double i =
     (let a = nat \<bar>i\<bar>; k = bit_length a in
      if k \<le> 53 then i
      else let ulp = 2 ^ (k - 53); q = a div ulp; r = a mod ulp;
               q' = (if ulp < 2 * r \<or> (2 * r = ulp \<and> odd q) then q + 1 else q)
           in sgn i * int (q' * ulp))"

text \<open>\<^verbatim>\<open>a + b\<close> on numbers.\<close>

definition plus_number :: "int \<Rightarrow> int \<Rightarrow> int" where
  "plus_number a b = round_double (a + b)"

text \<open>
  \<^verbatim>\<open>Number.prototype.toString()\<close>, which is also what a template literal applies to a
  number. For a positive number \<open>v\<close> the language takes integers \<open>n\<close>, \<open>k\<close> and
  \<open>s\<close> with \<open>k \<ge> 1\<close> and \<open>10 ^ (k - 1) \<le> s < 10 ^ k\<close> such that
  \<open>s * 10 ^ (n - k)\<close> is a decimal that reads back as \<open>v\<close>, with \<open>k\<close> as small as
  possible and, among several \<open>s\<close>, the one whose decimal is closest to \<open>v\<close> (the
  even one of two equally close). It writes the digits of \<open>s\<close> followed by \<open>n - k\<close>
  zeros when \<open>n \<le> 21\<close>, and otherwise the first digit of \<open>s\<close>, a point and the
  other digits if there are any, and the exponent \<open>e+\<close> with \<open>n - 1\<close>.

  For an integer \<open>v\<close> of \<open>n\<close> decimal digits, \<open>shortest_digits v n k\<close> looks for
  \<open>s\<close> with \<open>k\<close>, \<open>k + 1\<close>, ... digits: the candidates are \<open>v\<close> cut after its first
  \<open>k\<close> digits, and that plus one. The one decimal that is not of this form is the power
  of ten above \<open>v\<close>, which \<open>nat_toString\<close> tries first.
\<close>

definition digit :: "nat \<Rightarrow> char" where
  "digit d = ''0123456789'' ! d"

fun digits :: "nat \<Rightarrow> string" where
  "digits n = (if n < 10 then [digit n] else digits (n div 10) @ [digit (n mod 10)])"

declare digits.simps [simp del]

fun digit_count :: "nat \<Rightarrow> nat" where
  "digit_count n = (if n = 0 then 0 else Suc (digit_count (n div 10)))"

declare digit_count.simps [simp del]

function shortest_digits :: "nat \<Rightarrow> nat \<Rightarrow> nat \<Rightarrow> nat \<times> nat" where
  "shortest_digits v n k =
     (if n \<le> k then (v, n)
      else let p = 10 ^ (n - k); s = v div p;
               below = (round_double (int (s * p)) = int v);
               above = (s + 1 < 10 ^ k \<and> round_double (int ((s + 1) * p)) = int v)
           in if below \<and> above then
                (if v - s * p < (s + 1) * p - v then (s, k)
                 else if (s + 1) * p - v < v - s * p then (s + 1, k)
                 else if even s then (s, k) else (s + 1, k))
              else if below then (s, k)
              else if above then (s + 1, k)
              else shortest_digits v n (Suc k))"
  by pat_completeness auto
termination
  by (relation "measure (\<lambda>(v, n, k). n - k)") auto

declare shortest_digits.simps [simp del]

definition format_number :: "nat \<Rightarrow> nat \<Rightarrow> nat \<Rightarrow> string" where
  "format_number s k n =
     (if n \<le> 21 then digits s @ replicate (n - k) CHR ''0''
      else (case digits s of
              [] \<Rightarrow> []
            | c # cs \<Rightarrow> c # (if cs = [] then [] else CHR ''.'' # cs) @ ''e+'' @ digits (n - 1)))"

definition nat_toString :: "nat \<Rightarrow> string" where
  "nat_toString v =
     (if v = 0 then ''0''
      else let n = digit_count v in
           if round_double (int (10 ^ n)) = int v then format_number 1 1 (n + 1)
           else (case shortest_digits v n 1 of (s, k) \<Rightarrow> format_number s k n))"

definition toString :: "int \<Rightarrow> string" where
  "toString i = (if i < 0 then CHR ''-'' # nat_toString (nat (- i)) else nat_toString (nat i))"

text \<open>
  The decimal string of an integer, as one writes it by hand: a minus sign for a negative
  number and then all the digits. \<open>decimal_value\<close> reads a string of digits back,
  most significant digit first.
\<close>

definition decimal_string :: "int \<Rightarrow> string" where
  "decimal_string i = (if i < 0 then CHR ''-'' # digits (nat (- i)) else digits (nat i))"

definition digit_value :: "char \<Rightarrow> nat" where
  "digit_value c = of_char c - 48"

definition decimal_value :: "string \<Rightarrow> nat" where
  "decimal_value s = foldl (\<lambda>acc c. 10 * acc + digit_value c) 0 s"

subsection \<open>Enumerations\<close>

datatype JobStatus = SUCCESS | FAILED | SKIPPED

text \<open>Of \<^verbatim>\<open>FeatureFlag\<close>, the two members the service names.\<close>

datatype FeatureFlag = SEARCH | SMART_SEARCH

datatype SearchStrategy = SMART | TEXT

datatype JobName = DUPLICATE_DETECTION

datatype WithoutProperty = DUPLICATE

datatype AssetOrder = ASC | DESC

datatype BufferEncoding = base64 | hex

subsection \<open>Entities, DTOs and configuration\<close>

text \<open>
  Of every entity and DTO, the properties the service reads. A record field is a global
  name, so a property whose name is taken (by HOL or by another record) carries a prefix.
\<close>

record UserEntity =
  user_id :: string

record AuthDto =
  user :: UserEntity

record AssetEntity =
  asset_id :: string
  ownerId :: string
  isVisible :: bool
  duplicateId :: "string option"
  resizePath :: "string option"

record PartnerEntity =
  sharedById :: string
  sharedBy :: "UserEntity option"
  inTimeline :: bool

record AssetDuplicateResult =
  assetId :: string
  dup_duplicateId :: "string option"

record CLIPConfig =
  clip_enabled :: bool
  modelName :: string
  duplicateThreshold :: real

record MachineLearningConfig =
  ml_enabled :: bool
  url :: string
  clip :: CLIPConfig

record SystemConfig =
  machineLearning :: MachineLearningConfig

text \<open>\<^verbatim>\<open>{ take, skip }\<close> of the job pagination and \<^verbatim>\<open>{ page, size }\<close> of a search.\<close>

record PaginationOptions =
  pg_take :: nat
  pg_skip :: nat

record SearchPaginationOptions =
  sp_page :: int
  sp_size :: int

record 'a Paginated =
  hasNextPage :: bool
  items :: "'a list"

record AssetDuplicateSearch =
  ds_assetId :: string
  ds_maxDistance :: real
  ds_userIds :: "string list"

record JobItem =
  job_name :: JobName
  job_data_id :: string

record ExploreOptions =
  maxFields :: nat
  minAssetsPerField :: nat

record 'a SearchExploreEntry =
  ex_value :: string
  ex_data :: 'a

record 'a SearchExploreItem =
  fieldName :: string
  ex_items :: "'a SearchExploreEntry list"

text \<open>
  \<^verbatim>\<open>Buffer.from(text, encoding)\<close> is kept as its two arguments. The length of a
  string counts its characters, which for the hexadecimal and base64 checksums the
  service expects is what JavaScript's \<^verbatim>\<open>length\<close> counts.
\<close>

datatype Buffer = Buffer_from string BufferEncoding

record MetadataSearchDto =
  md_checksum :: "string option"
  previewPath :: "string option"
  md_resizePath :: "string option"
  thumbnailPath :: "string option"
  webpPath :: "string option"
  md_page :: "int option"
  md_size :: "int option"
  md_order :: "AssetOrder option"

text \<open>
  The options of \<^verbatim>\<open>searchRepository.searchMetadata\<close>: the DTO spread into the
  object, its checksum overwritten by the buffer, and the two properties added.
\<close>

record MetadataSearchOptions =
  mo_dto :: MetadataSearchDto
  mo_checksum :: "Buffer option"
  mo_userIds :: "string list"
  orderDirection :: string

record SmartSearchDto =
  sm_query :: string
  sm_page :: "int option"
  sm_size :: "int option"

text \<open>
  The options of \<^verbatim>\<open>searchRepository.searchSmart\<close>: \<open>so_dto\<close> is the DTO
  spread into the object when the caller spreads one, \<open>so_withArchived\<close> the property
  when the caller sets it.
\<close>

record SmartSearchOptions =
  so_dto :: "SmartSearchDto option"
  so_userIds :: "string list"
  so_embedding :: "real list"
  so_withArchived :: "bool option"

record SearchDto =
  sd_q :: "string option"
  sd_query :: "string option"
  sd_smart :: "bool option"
  sd_clip :: "bool option"
  sd_page :: "int option"
  sd_size :: "int option"
  sd_withArchived :: "bool option"

text \<open>
  The response. Albums and facets are never filled in by this service; their element
  types stay abstract.
\<close>

typedecl AlbumResponseDto

typedecl SearchFacetResponseDto

record SearchAlbumResponseDto =
  alb_total :: nat
  alb_count :: nat
  alb_items :: "AlbumResponseDto list"
  alb_facets :: "SearchFacetResponseDto list"

record 'r SearchAssetResponseDto =
  ast_total :: nat
  ast_count :: nat
  ast_items :: "'r list"
  ast_facets :: "SearchFacetResponseDto list"
  nextPage :: "string option"

record 'r SearchResponseDto =
  albums :: SearchAlbumResponseDto
  assets :: "'r SearchAssetResponseDto"

subsection \<open>Calls and outcomes\<close>

text \<open>
  One constructor per repository method the modelled operations call, with the
  arguments of the call. \<^verbatim>\<open>upsertJobStatus\<close> also receives the current time
  (\<^verbatim>\<open>new Date()\<close>), which the model leaves out; \<^verbatim>\<open>assetRepository.getAll\<close>
  is only called with \<^verbatim>\<open>{ isVisible: true }\<close>.
\<close>

datatype event =
    Config_requireFeature FeatureFlag
  | Config_getConfig
  | Logger_error string
  | Logger_debug string
  | Asset_getById string
  | Asset_upsertJobStatus string
  | Search_searchDuplicates AssetDuplicateSearch
  | Crypto_randomUUID
  | AssetDuplicate_upsert string "string list" "string list"
  | Partner_getAll string
  | Asset_getAssetIdByCity string ExploreOptions
  | Asset_getAssetIdByTag string ExploreOptions
  | Asset_getByIdsWithAllRelations "string list"
  | Asset_getAll PaginationOptions
  | Asset_getWithout PaginationOptions WithoutProperty
  | Asset_searchMetadata string "string list" int
  | Job_queueAll "JobItem list"
  | Search_searchMetadata SearchPaginationOptions MetadataSearchOptions
  | Search_searchSmart SearchPaginationOptions SmartSearchOptions
  | Search_getAssetsByCity "string list"
  | MachineLearning_encodeText string string CLIPConfig

text \<open>
  What a method throws: \<^verbatim>\<open>new Error(message)\<close>, or the rejection of
  \<^verbatim>\<open>requireFeature\<close>.
\<close>

datatype error = Error string | FeatureDisabled FeatureFlag

type_synonym 'a io = "event list \<times> (error + 'a)"

definition ret :: "'a \<Rightarrow> 'a io" where
  "ret x = ([], Inr x)"

definition throw :: "error \<Rightarrow> 'a io" where
  "throw e = ([], Inl e)"

text \<open>A call that answers \<open>x\<close>.\<close>

definition call :: "event \<Rightarrow> 'a \<Rightarrow> 'a io" where
  "call ev x = ([ev], Inr x)"

text \<open>\<^verbatim>\<open>const x = await m; f(x)\<close>: an error of \<open>m\<close> ends the method.\<close>

definition await :: "'a io \<Rightarrow> ('a \<Rightarrow> 'b io) \<Rightarrow> 'b io" where
  "await m f =
     (case m of
        (t, Inl e) \<Rightarrow> (t, Inl e)
      | (t, Inr x) \<Rightarrow> (case f x of (t', r) \<Rightarrow> (t @ t', r)))"

definition trace :: "'a io \<Rightarrow> event list" where
  "trace m = fst m"

definition outcome :: "'a io \<Rightarrow> error + 'a" where
  "outcome m = snd m"

subsection \<open>The environment\<close>

text \<open>
  What the injected repositories answer. \<open>features\<close> is what the system configuration
  reports for each feature flag, \<open>config\<close> what \<^verbatim>\<open>getConfig\<close> resolves to and
  \<open>crypto_randomUUID\<close> the identifier the next call of \<^verbatim>\<open>randomUUID\<close> draws.
  \<^verbatim>\<open>JOBS_ASSET_PAGINATION_SIZE\<close> and \<^verbatim>\<open>mapAsset\<close> are imported by the service
  from files that are not part of the sources at hand, so they are parameters too; \<open>'r\<close>
  is the type of an \<^verbatim>\<open>AssetResponseDto\<close>. A repository call that rejects is outside
  the model.
\<close>

record 'r env =
  features :: "FeatureFlag \<Rightarrow> bool"
  config :: SystemConfig
  JOBS_ASSET_PAGINATION_SIZE :: nat
  mapAsset :: "AssetEntity \<Rightarrow> 'r"
  crypto_randomUUID :: string
  partner_getAll :: "string \<Rightarrow> PartnerEntity list"
  asset_getAssetIdByCity :: "string \<Rightarrow> ExploreOptions \<Rightarrow> string SearchExploreItem"
  asset_getAssetIdByTag :: "string \<Rightarrow> ExploreOptions \<Rightarrow> string SearchExploreItem"
  asset_getByIdsWithAllRelations :: "string list \<Rightarrow> AssetEntity list"
  asset_getById :: "string \<Rightarrow> AssetEntity option"
  asset_getAll :: "PaginationOptions \<Rightarrow> AssetEntity Paginated"
  asset_getWithout :: "PaginationOptions \<Rightarrow> WithoutProperty \<Rightarrow> AssetEntity Paginated"
  asset_searchMetadata :: "string \<Rightarrow> string list \<Rightarrow> int \<Rightarrow> AssetEntity list"
  search_searchMetadata ::
    "SearchPaginationOptions \<Rightarrow> MetadataSearchOptions \<Rightarrow> AssetEntity Paginated"
  search_searchSmart ::
    "SearchPaginationOptions \<Rightarrow> SmartSearchOptions \<Rightarrow> AssetEntity Paginated"
  search_getAssetsByCity :: "string list \<Rightarrow> AssetEntity list"
  search_searchDuplicates :: "AssetDuplicateSearch \<Rightarrow> AssetDuplicateResult list"
  machineLearning_encodeText :: "string \<Rightarrow> string \<Rightarrow> CLIPConfig \<Rightarrow> real list"

text \<open>
  \<^verbatim>\<open>configCore.getConfig()\<close> resolves to the configuration of the environment.
\<close>

definition getConfig :: "'r env \<Rightarrow> SystemConfig io" where
  "getConfig e = call Config_getConfig (config e)"

text \<open>
  Modelled from the spec: \<^verbatim>\<open>SystemConfigCore.requireFeature\<close>
  (\<^verbatim>\<open>src/cores/system-config.core\<close>) is not part of the sources at hand. The
  specification says of the service that "it validates feature flags, fans out to
  repositories [...] and reshapes results into response DTOs": the call resolves when
  the configuration reports the flag as enabled and rejects otherwise.
\<close>

definition requireFeature :: "'r env \<Rightarrow> FeatureFlag \<Rightarrow> unit io" where
  "requireFeature e flag =
     await (call (Config_requireFeature flag) (features e flag)) (\<lambda>enabled.
     if enabled then ret () else throw (FeatureDisabled flag))"

subsection \<open>Private helpers of the service\<close>

definition getUserIdsToSearch :: "'r env \<Rightarrow> AuthDto \<Rightarrow> string list io" where
  "getUserIdsToSearch e auth =
     (let userIds = [user_id (user auth)] in
      await (call (Partner_getAll (user_id (user auth))) (partner_getAll e (user_id (user auth))))
        (\<lambda>partners.
      let partnersIds =
            map sharedById (filter (\<lambda>partner. sharedBy partner \<noteq> None \<and> inTimeline partner) partners)
      in ret (userIds @ partnersIds)))"

definition mapResponse :: "'r env \<Rightarrow> AssetEntity list \<Rightarrow> string option \<Rightarrow> 'r SearchResponseDto" where
  "mapResponse e assets' nextPage' =
     \<lparr>albums = \<lparr>alb_total = 0, alb_count = 0, alb_items = [], alb_facets = []\<rparr>,
      assets = \<lparr>ast_total = length assets',
                ast_count = length assets',
                ast_items = map (mapAsset e) assets',
                ast_facets = [],
                nextPage = nextPage'\<rparr>\<rparr>"

subsection \<open>Explore data\<close>

text \<open>
  \<^verbatim>\<open>new Set(xs)\<close> keeps the first occurrence of every element, in insertion order;
  \<^verbatim>\<open>new Map(entries)\<close> keeps the last value of every key.
\<close>

definition Set_of :: "'a list \<Rightarrow> 'a list" where
  "Set_of xs = fold (\<lambda>x acc. if x \<in> set acc then acc else acc @ [x]) xs []"

definition Map_of :: "('k \<times> 'v) list \<Rightarrow> 'k \<Rightarrow> 'v option" where
  "Map_of entries = map_of (rev entries)"

definition getExploreData :: "'r env \<Rightarrow> AuthDto \<Rightarrow> 'r option SearchExploreItem list io" where
  "getExploreData e auth =
     await (requireFeature e SEARCH) (\<lambda>_.
     let options = \<lparr>maxFields = 12, minAssetsPerField = 5\<rparr> in
     await (call (Asset_getAssetIdByCity (user_id (user auth)) options)
              (asset_getAssetIdByCity e (user_id (user auth)) options)) (\<lambda>byCity.
     await (call (Asset_getAssetIdByTag (user_id (user auth)) options)
              (asset_getAssetIdByTag e (user_id (user auth)) options)) (\<lambda>byTag.
     let results = [byCity, byTag];
         assetIds = Set_of (concat (map (\<lambda>field. map ex_data (ex_items field)) results))
     in
     await (call (Asset_getByIdsWithAllRelations assetIds)
              (asset_getByIdsWithAllRelations e assetIds)) (\<lambda>assets'.
     let assetMap = Map_of (map (\<lambda>asset. (asset_id asset, mapAsset e asset)) assets') in
     ret (map (\<lambda>field.
                 \<lparr>fieldName = fieldName field,
                  ex_items = map (\<lambda>item. \<lparr>ex_value = ex_value item, ex_data = assetMap (ex_data item)\<rparr>)
                                 (ex_items field)\<rparr>)
              results)))))"

subsection \<open>Metadata search and smart search\<close>

definition searchMetadata :: "'r env \<Rightarrow> AuthDto \<Rightarrow> MetadataSearchDto \<Rightarrow> 'r SearchResponseDto io" where
  "searchMetadata e auth dto0 =
     await (getUserIdsToSearch e auth) (\<lambda>userIds.
     let checksum =
           (case md_checksum dto0 of
              None \<Rightarrow> None
            | Some c \<Rightarrow>
                if c = [] then None
                else (let encoding = (if length c = 28 then base64 else hex)
                      in Some (Buffer_from c encoding)));
         dto = dto0\<lparr>previewPath :=
                       (case previewPath dto0 of None \<Rightarrow> md_resizePath dto0 | Some v \<Rightarrow> Some v)\<rparr>;
         dto = dto\<lparr>thumbnailPath :=
                      (case thumbnailPath dto of None \<Rightarrow> webpPath dto | Some v \<Rightarrow> Some v)\<rparr>;
         page = nullish (md_page dto) 1;
         size' = or_number (md_size dto) 250;
         pagination = \<lparr>sp_page = page, sp_size = size'\<rparr>;
         options = \<lparr>mo_dto = dto,
                    mo_checksum = checksum,
                    mo_userIds = userIds,
                    orderDirection =
                      (case md_order dto of
                         None \<Rightarrow> ''DESC''
                       | Some ASC \<Rightarrow> ''ASC''
                       | Some DESC \<Rightarrow> ''DESC'')\<rparr>
     in
     await (call (Search_searchMetadata pagination options)
              (search_searchMetadata e pagination options)) (\<lambda>result.
     ret (mapResponse e (items result)
            (if hasNextPage result then Some (toString (plus_number page 1)) else None))))"

definition searchSmart :: "'r env \<Rightarrow> AuthDto \<Rightarrow> SmartSearchDto \<Rightarrow> 'r SearchResponseDto io" where
  "searchSmart e auth dto =
     await (requireFeature e SMART_SEARCH) (\<lambda>_.
     await (getConfig e) (\<lambda>cfg.
     await (getUserIdsToSearch e auth) (\<lambda>userIds.
     await (call (MachineLearning_encodeText (url (machineLearning cfg)) (sm_query dto)
                    (clip (machineLearning cfg)))
              (machineLearning_encodeText e (url (machineLearning cfg)) (sm_query dto)
                    (clip (machineLearning cfg)))) (\<lambda>embedding.
     let page = nullish (sm_page dto) 1;
         size' = or_number (sm_size dto) 100;
         pagination = \<lparr>sp_page = page, sp_size = size'\<rparr>;
         options = \<lparr>so_dto = Some dto, so_userIds = userIds, so_embedding = embedding,
                    so_withArchived = None\<rparr>
     in
     await (call (Search_searchSmart pagination options)
              (search_searchSmart e pagination options)) (\<lambda>result.
     ret (mapResponse e (items result)
            (if hasNextPage result then Some (toString (plus_number page 1)) else None)))))))"

definition getAssetsByCity :: "'r env \<Rightarrow> AuthDto \<Rightarrow> 'r list io" where
  "getAssetsByCity e auth =
     await (getUserIdsToSearch e auth) (\<lambda>userIds.
     await (call (Search_getAssetsByCity userIds) (search_getAssetsByCity e userIds)) (\<lambda>assets'.
     ret (map (mapAsset e) assets')))"

subsection \<open>Queueing duplicate detection\<close>

text \<open>
  A method whose loop may not end returns \<open>None\<close> when it does not;
  \<open>await_partial\<close> sequences a call before such a computation.
\<close>

definition await_partial :: "'a io \<Rightarrow> ('a \<Rightarrow> 'b io option) \<Rightarrow> 'b io option" where
  "await_partial m f =
     (case m of
        (t, Inl err) \<Rightarrow> Some (t, Inl err)
      | (t, Inr x) \<Rightarrow> map_option (\<lambda>(t', r). (t @ t', r)) (f x))"

text \<open>
  Modelled from the spec: \<^verbatim>\<open>usePagination\<close> (\<^verbatim>\<open>src/utils/pagination\<close>) is not
  part of the sources at hand. The specification speaks of "simple pagination" and of
  "pagination helpers": pages of \<open>pageSize\<close> items are requested one after the other,
  the first at offset 0 and each next one \<open>pageSize\<close> further, and each page is handed
  to the consumer, until the repository reports that no page follows. The function below
  is the helper together with the \<^verbatim>\<open>for await\<close> loop that consumes it: \<open>body\<close>
  runs on each page before the next page is requested.
\<close>

partial_function (option) usePagination_from ::
  "nat \<Rightarrow> (PaginationOptions \<Rightarrow> 'a Paginated io) \<Rightarrow> ('a list \<Rightarrow> unit io) \<Rightarrow> nat \<Rightarrow> unit io option"
where
  "usePagination_from pageSize getNextPage body skip =
     (case getNextPage \<lparr>pg_take = pageSize, pg_skip = skip\<rparr> of
        (t, Inl err) \<Rightarrow> Some (t, Inl err)
      | (t, Inr result) \<Rightarrow>
          (case body (items result) of
             (t', Inl err) \<Rightarrow> Some (t @ t', Inl err)
           | (t', Inr _) \<Rightarrow>
               if hasNextPage result then
                 Option.bind (usePagination_from pageSize getNextPage body (skip + pageSize))
                   (\<lambda>(t'', r). Some (t @ t' @ t'', r))
               else Some (t @ t', Inr ())))"

declare usePagination_from.simps [code]

definition usePagination ::
  "nat \<Rightarrow> (PaginationOptions \<Rightarrow> 'a Paginated io) \<Rightarrow> ('a list \<Rightarrow> unit io) \<Rightarrow> unit io option" where
  "usePagination pageSize getNextPage body = usePagination_from pageSize getNextPage body 0"

definition handleQueueSearchDuplicates :: "'r env \<Rightarrow> bool option \<Rightarrow> JobStatus io option" where
  "handleQueueSearchDuplicates e force =
     await_partial (getConfig e) (\<lambda>cfg.
     if \<not> ml_enabled (machineLearning cfg) \<or> \<not> clip_enabled (clip (machineLearning cfg)) then
       Some (ret SKIPPED)
     else
       Option.bind
         (usePagination (JOBS_ASSET_PAGINATION_SIZE e)
            (\<lambda>pagination.
               if truthy_boolean force
               then call (Asset_getAll pagination) (asset_getAll e pagination)
               else call (Asset_getWithout pagination DUPLICATE)
                      (asset_getWithout e pagination DUPLICATE))
            (\<lambda>assets'.
               call (Job_queueAll
                       (map (\<lambda>asset. \<lparr>job_name = DUPLICATE_DETECTION, job_data_id = asset_id asset\<rparr>)
                          assets')) ()))
         (\<lambda>loop. Some (await loop (\<lambda>_. ret SUCCESS))))"

subsection \<open>Duplicate detection\<close>

definition handleSearchDuplicates :: "'r env \<Rightarrow> string \<Rightarrow> JobStatus io" where
  "handleSearchDuplicates e id' =
     await (getConfig e) (\<lambda>cfg.
     await (call (Asset_getById id') (asset_getById e id')) (\<lambda>found.
     case found of
       None \<Rightarrow>
         await (call (Logger_error (''Asset '' @ id' @ '' not found'')) ()) (\<lambda>_.
         ret FAILED)
     | Some asset \<Rightarrow>
         if \<not> isVisible asset then
           await (call (Logger_debug (''Asset '' @ id' @ '' is not visible, skipping'')) ()) (\<lambda>_.
           await (call (Asset_upsertJobStatus (asset_id asset)) ()) (\<lambda>_.
           ret SKIPPED))
         else if truthy_string (duplicateId asset) then
           await (call (Logger_debug (''Asset '' @ id' @ '' already has a duplicateId, skipping'')) ()) (\<lambda>_.
           ret SKIPPED)
         else if \<not> truthy_string (resizePath asset) then
           await (call (Logger_debug (''Asset '' @ id' @ '' is missing preview image'')) ()) (\<lambda>_.
           ret FAILED)
         else
           let q = \<lparr>ds_assetId = asset_id asset,
                    ds_maxDistance = duplicateThreshold (clip (machineLearning cfg)),
                    ds_userIds = [ownerId asset]\<rparr> in
           await (call (Search_searchDuplicates q) (search_searchDuplicates e q)) (\<lambda>duplicateAssets.
           await
             (if length duplicateAssets > 0 then
                await (call (Logger_debug (''Found '' @ toString (int (length duplicateAssets))
                         @ '' duplicates for asset '' @ asset_id asset)) ()) (\<lambda>_.
                let duplicateIds = map the (filter truthy_string (map dup_duplicateId duplicateAssets)) in
                await (case duplicateIds of
                         d # _ \<Rightarrow> ret d
                       | [] \<Rightarrow> call Crypto_randomUUID (crypto_randomUUID e)) (\<lambda>duplicateId.
                let duplicateAssetIds = map assetId duplicateAssets @ [asset_id asset] in
                call (AssetDuplicate_upsert duplicateId duplicateAssetIds duplicateIds) ()))
              else ret ()) (\<lambda>_.
           await (call (Asset_upsertJobStatus (asset_id asset)) ()) (\<lambda>_.
           ret SUCCESS)))))"

text \<open>The calls of \<^verbatim>\<open>assetDuplicateRepository.upsert\<close> among the calls of a run.\<close>

definition is_duplicate_upsert :: "event \<Rightarrow> bool" where
  "is_duplicate_upsert ev = (case ev of AssetDuplicate_upsert _ _ _ \<Rightarrow> True | _ \<Rightarrow> False)"

subsection \<open>The deprecated search\<close>

definition search :: "'r env \<Rightarrow> AuthDto \<Rightarrow> SearchDto \<Rightarrow> 'r SearchResponseDto io" where
  "search e auth dto =
     await (requireFeature e SEARCH) (\<lambda>_.
     await (getConfig e) (\<lambda>cfg.
     case or_string (sd_q dto) (sd_query dto) of
       None \<Rightarrow> throw (Error ''Missing query'')
     | Some query \<Rightarrow>
         if query = [] then throw (Error ''Missing query'')
         else
           await (if truthy_boolean (sd_smart dto) \<or> truthy_boolean (sd_clip dto)
                  then await (requireFeature e SMART_SEARCH) (\<lambda>_. ret SMART)
                  else ret TEXT) (\<lambda>strategy.
           await (getUserIdsToSearch e auth) (\<lambda>userIds.
           let page = nullish (sd_page dto) 1 in
           await
             (case strategy of
                SMART \<Rightarrow>
                  await (call (MachineLearning_encodeText (url (machineLearning cfg)) query
                                 (clip (machineLearning cfg)))
                           (machineLearning_encodeText e (url (machineLearning cfg)) query
                                 (clip (machineLearning cfg)))) (\<lambda>embedding.
                  let pagination = \<lparr>sp_page = page, sp_size = or_number (sd_size dto) 100\<rparr>;
                      options = \<lparr>so_dto = None, so_userIds = userIds, so_embedding = embedding,
                                 so_withArchived = Some (truthy_boolean (sd_withArchived dto))\<rparr>
                  in
                  await (call (Search_searchSmart pagination options)
                           (search_searchSmart e pagination options)) (\<lambda>result.
                  ret (if hasNextPage result then Some (toString (plus_number page 1)) else None,
                       items result)))
              | TEXT \<Rightarrow>
                  await (call (Asset_searchMetadata query userIds (or_number (sd_size dto) 250))
                           (asset_searchMetadata e query userIds (or_number (sd_size dto) 250)))
                    (\<lambda>assets'.
                  ret (None, assets')))
             (\<lambda>(nextPage', assets'). ret (mapResponse e assets' nextPage'))))))"

text \<open>
  The user ids a call hands to a search: the argument \<^verbatim>\<open>userIds\<close> of the search
  repository's methods and of the asset repository's metadata search.
\<close>

definition searched_userIds :: "event \<Rightarrow> string list option" where
  "searched_userIds ev =
     (case ev of
        Search_searchMetadata _ options \<Rightarrow> Some (mo_userIds options)
      | Search_searchSmart _ options \<Rightarrow> Some (so_userIds options)
      | Search_getAssetsByCity userIds \<Rightarrow> Some userIds
      | Asset_searchMetadata _ userIds _ \<Rightarrow> Some userIds
      | _ \<Rightarrow> None)"

subsection \<open>An example installation\<close>

text \<open>
  One user \<open>u1\<close> with two partners, of whom only \<open>p1\<close> shares into the timeline,
  and four assets: \<open>a1\<close> has three near duplicates, two of them already in a
  duplicate group; \<open>a2\<close> is hidden and has no preview; \<open>a3\<close> has one near
  duplicate that is in no group; \<open>a4\<close> has none. The response DTO of an asset is
  represented by the asset's id.
\<close>

definition example_auth :: AuthDto where
  "example_auth = \<lparr>user = \<lparr>user_id = ''u1''\<rparr>\<rparr>"

definition example_asset :: AssetEntity where
  "example_asset =
     \<lparr>asset_id = ''a1'', ownerId = ''u1'', isVisible = True, duplicateId = None,
      resizePath = Some ''upload/a1.jpeg''\<rparr>"

definition example_hidden :: AssetEntity where
  "example_hidden =
     \<lparr>asset_id = ''a2'', ownerId = ''u1'', isVisible = False, duplicateId = None,
      resizePath = None\<rparr>"

definition example_fresh :: AssetEntity where
  "example_fresh =
     \<lparr>asset_id = ''a3'', ownerId = ''u1'', isVisible = True, duplicateId = None,
      resizePath = Some ''upload/a3.jpeg''\<rparr>"

definition example_unique :: AssetEntity where
  "example_unique =
     \<lparr>asset_id = ''a4'', ownerId = ''u1'', isVisible = True, duplicateId = None,
      resizePath = Some ''upload/a4.jpeg''\<rparr>"

definition example_config :: SystemConfig where
  "example_config =
     \<lparr>machineLearning =
        \<lparr>ml_enabled = True, url = ''http://ml:3003'',
         clip = \<lparr>clip_enabled = True, modelName = ''ViT-B-32'', duplicateThreshold = 3 / 100\<rparr>\<rparr>\<rparr>"

definition example_env :: "string env" where
  "example_env =
     \<lparr>features = (\<lambda>_. True),
      config = example_config,
      JOBS_ASSET_PAGINATION_SIZE = 2,
      mapAsset = asset_id,
      crypto_randomUUID = ''uuid-1'',
      partner_getAll = (\<lambda>_.
        [\<lparr>sharedById = ''p1'', sharedBy = Some \<lparr>user_id = ''p1''\<rparr>, inTimeline = True\<rparr>,
         \<lparr>sharedById = ''p2'', sharedBy = Some \<lparr>user_id = ''p2''\<rparr>, inTimeline = False\<rparr>]),
      asset_getAssetIdByCity = (\<lambda>_ _.
        \<lparr>fieldName = ''exifInfo.city'', ex_items = [\<lparr>ex_value = ''Paris'', ex_data = ''a1''\<rparr>]\<rparr>),
      asset_getAssetIdByTag = (\<lambda>_ _.
        \<lparr>fieldName = ''smartInfo.tags'', ex_items = [\<lparr>ex_value = ''cat'', ex_data = ''a1''\<rparr>]\<rparr>),
      asset_getByIdsWithAllRelations = (\<lambda>ids. if ''a1'' \<in> set ids then [example_asset] else []),
      asset_getById = (\<lambda>i.
        if i = ''a1'' then Some example_asset
        else if i = ''a2'' then Some example_hidden
        else if i = ''a3'' then Some example_fresh
        else if i = ''a4'' then Some example_unique
        else None),
      asset_getAll = (\<lambda>p.
        if pg_skip p = 0 then \<lparr>hasNextPage = True, items = [example_asset, example_fresh]\<rparr>
        else \<lparr>hasNextPage = False, items = []\<rparr>),
      asset_getWithout = (\<lambda>p _.
        if pg_skip p = 0 then \<lparr>hasNextPage = True, items = [example_asset, example_fresh]\<rparr>
        else \<lparr>hasNextPage = False, items = []\<rparr>),
      asset_searchMetadata = (\<lambda>_ _ _. [example_asset, example_fresh]),
      search_searchMetadata = (\<lambda>_ _. \<lparr>hasNextPage = True, items = [example_asset]\<rparr>),
      search_searchSmart = (\<lambda>_ _. \<lparr>hasNextPage = True, items = [example_asset]\<rparr>),
      search_getAssetsByCity = (\<lambda>_. [example_asset]),
      search_searchDuplicates = (\<lambda>q.
        if ds_assetId q = ''a1''
        then [\<lparr>assetId = ''b1'', dup_duplicateId = None\<rparr>,
              \<lparr>assetId = ''b2'', dup_duplicateId = Some ''g7''\<rparr>,
              \<lparr>assetId = ''b3'', dup_duplicateId = Some ''g9''\<rparr>]
        else if ds_assetId q = ''a3''
        then [\<lparr>assetId = ''b4'', dup_duplicateId = None\<rparr>]
        else []),
      machineLearning_encodeText = (\<lambda>_ _ _. [1, 2])\<rparr>"

text \<open>
  The same installation with no feature enabled, with only \<open>SEARCH\<close> enabled, and
  with machine learning switched off.
\<close>

definition example_env_off :: "string env" where
  "example_env_off = example_env\<lparr>features := (\<lambda>_. False)\<rparr>"

definition example_env_text_only :: "string env" where
  "example_env_text_only = example_env\<lparr>features := (\<lambda>flag. flag = SEARCH)\<rparr>"

definition example_env_ml_off :: "string env" where
  "example_env_ml_off =
     example_env\<lparr>config :=
       \<lparr>machineLearning =
          \<lparr>ml_enabled = False, url = ''http://ml:3003'',
           clip = \<lparr>clip_enabled = True, modelName = ''ViT-B-32'',
                   duplicateThreshold = 3 / 100\<rparr>\<rparr>\<rparr>\<rparr>"

definition example_metadata_dto :: MetadataSearchDto where
  "example_metadata_dto =
     \<lparr>md_checksum = None, previewPath = None, md_resizePath = None, thumbnailPath = None,
      webpPath = None, md_page = None, md_size = Some 0, md_order = None\<rparr>"

definition example_smart_dto :: SmartSearchDto where
  "example_smart_dto = \<lparr>sm_query = ''cat'', sm_page = Some 9, sm_size = None\<rparr>"

text \<open>Requests for the pages \<open>2 ^ 53\<close> and \<open>10 ^ 21\<close>.\<close>

definition example_large_dto :: SmartSearchDto where
  "example_large_dto = \<lparr>sm_query = ''cat'', sm_page = Some 9007199254740992, sm_size = None\<rparr>"

definition example_huge_dto :: MetadataSearchDto where
  "example_huge_dto = example_metadata_dto\<lparr>md_page := Some 1000000000000000000000\<rparr>"

definition example_text_dto :: SearchDto where
  "example_text_dto =
     \<lparr>sd_q = Some [], sd_query = Some ''dog'', sd_smart = None, sd_clip = Some False,
      sd_page = None, sd_size = None, sd_withArchived = None\<rparr>"

definition example_clip_dto :: SearchDto where
  "example_clip_dto = example_text_dto\<lparr>sd_clip := Some True\<rparr>"

definition example_empty_dto :: SearchDto where
  "example_empty_dto = example_text_dto\<lparr>sd_query := None\<rparr>"

section \<open>Properties\<close>

subsection \<open>Sequencing\<close>

lemma await_ret: "await (ret x) f = f x"
  by (simp add: await_def ret_def split: prod.splits)

lemma await_throw: "await (throw err) f = throw err"
  by (simp add: await_def throw_def)

lemma trace_await_call: "trace (await (call ev x) f) = ev # trace (f x)"
  by (simp add: await_def call_def trace_def split: prod.splits)

lemma outcome_await_call: "outcome (await (call ev x) f) = outcome (f x)"
  by (simp add: await_def call_def outcome_def split: prod.splits)

lemma trace_ret: "trace (ret x) = []"
  by (simp add: ret_def trace_def)

lemma outcome_ret: "outcome (ret x) = Inr x"
  by (simp add: ret_def outcome_def)

lemma trace_throw: "trace (throw err) = []"
  by (simp add: throw_def trace_def)

lemma outcome_throw: "outcome (throw err) = Inl err"
  by (simp add: throw_def outcome_def)

lemma trace_call: "trace (call ev x) = [ev]"
  by (simp add: call_def trace_def)

lemma outcome_call: "outcome (call ev x) = Inr x"
  by (simp add: call_def outcome_def)

lemma trace_await:
  "trace (await m f) = (case outcome m of Inl err \<Rightarrow> trace m | Inr x \<Rightarrow> trace m @ trace (f x))"
  by (simp add: await_def trace_def outcome_def split: prod.splits sum.splits)

lemma outcome_await:
  "outcome (await m f) = (case outcome m of Inl err \<Rightarrow> Inl err | Inr x \<Rightarrow> outcome (f x))"
  by (simp add: await_def outcome_def split: prod.splits sum.splits)

lemmas io_simps =
  await_ret await_throw trace_await_call outcome_await_call trace_ret outcome_ret
  trace_throw outcome_throw trace_call outcome_call

lemmas example_defs =
  example_env_def example_env_off_def example_env_text_only_def example_env_ml_off_def
  example_auth_def example_asset_def example_hidden_def example_fresh_def example_unique_def
  example_config_def example_metadata_dto_def example_smart_dto_def
  example_large_dto_def example_huge_dto_def example_text_dto_def example_clip_dto_def example_empty_dto_def

lemmas js_defs =
  or_string_def truthy_string_def truthy_boolean_def nullish_def or_number_def

lemmas number_defs =
  toString_def nat_toString_def format_number_def shortest_digits.simps round_double_def
  bit_length.simps digit_count.simps digits.simps digit_def plus_number_def Let_def

lemma io_eq_iff: "(m = (t, r)) = (trace m = t \<and> outcome m = r)"
  by (auto simp add: trace_def outcome_def)


subsection \<open>What the building blocks do\<close>

lemma outcome_getUserIdsToSearch:
  "outcome (getUserIdsToSearch e auth) =
     Inr (user_id (user auth) #
          map sharedById (filter (\<lambda>partner. sharedBy partner \<noteq> None \<and> inTimeline partner)
                            (partner_getAll e (user_id (user auth)))))"
  by (simp add: getUserIdsToSearch_def Let_def io_simps)

lemma trace_getUserIdsToSearch:
  "trace (getUserIdsToSearch e auth) = [Partner_getAll (user_id (user auth))]"
  by (simp add: getUserIdsToSearch_def Let_def io_simps)

lemma outcome_requireFeature:
  "outcome (requireFeature e flag) = (if features e flag then Inr () else Inl (FeatureDisabled flag))"
  by (simp add: requireFeature_def io_simps)

lemma trace_requireFeature: "trace (requireFeature e flag) = [Config_requireFeature flag]"
  by (simp add: requireFeature_def io_simps)

lemma outcome_getConfig: "outcome (getConfig e) = Inr (config e)"
  by (simp add: getConfig_def io_simps)

lemma trace_getConfig: "trace (getConfig e) = [Config_getConfig]"
  by (simp add: getConfig_def io_simps)

lemmas run_simps =
  trace_await outcome_await io_simps
  outcome_getUserIdsToSearch trace_getUserIdsToSearch
  outcome_requireFeature trace_requireFeature outcome_getConfig trace_getConfig

subsection \<open>The user ids searched\<close>

lemma searchMetadata_userIds:
  "ev \<in> set (trace (searchMetadata e auth mdto)) \<Longrightarrow> searched_userIds ev = Some ids \<Longrightarrow>
   outcome (getUserIdsToSearch e auth) = Inr ids"
  by (auto simp add: searchMetadata_def Let_def run_simps searched_userIds_def)

lemma searchSmart_userIds:
  "ev \<in> set (trace (searchSmart e auth sdto)) \<Longrightarrow> searched_userIds ev = Some ids \<Longrightarrow>
   outcome (getUserIdsToSearch e auth) = Inr ids"
  by (auto simp add: searchSmart_def Let_def run_simps searched_userIds_def split: if_splits)

lemma getAssetsByCity_userIds:
  "ev \<in> set (trace (getAssetsByCity e auth)) \<Longrightarrow> searched_userIds ev = Some ids \<Longrightarrow>
   outcome (getUserIdsToSearch e auth) = Inr ids"
  by (auto simp add: getAssetsByCity_def Let_def run_simps searched_userIds_def)

lemma search_userIds:
  "ev \<in> set (trace (search e auth dto)) \<Longrightarrow> searched_userIds ev = Some ids \<Longrightarrow>
   outcome (getUserIdsToSearch e auth) = Inr ids"
  by (auto simp add: search_def Let_def run_simps searched_userIds_def
      split: if_splits option.splits)

text \<open>
  Claim C9. For every authenticated caller, the list of user ids that
  \<open>getUserIdsToSearch\<close> returns starts with the caller's own id and continues with
  exactly the \<open>sharedById\<close> of those partners, in the order the partner repository
  lists them, for which \<open>sharedBy\<close> is present and \<open>inTimeline\<close> is true; the helper
  never throws. This list, and no other, is what \<open>searchMetadata\<close>, \<open>searchSmart\<close>,
  \<open>getAssetsByCity\<close> and the deprecated search hand to the repository they search.
\<close>

theorem getUserIdsToSearch_own_id_then_timeline_partners:
  "\<exists>partnersIds.
     outcome (getUserIdsToSearch e auth) = Inr (user_id (user auth) # partnersIds) \<and>
     partnersIds =
       map sharedById (filter (\<lambda>partner. sharedBy partner \<noteq> None \<and> inTimeline partner)
                         (partner_getAll e (user_id (user auth)))) \<and>
     set partnersIds =
       {sharedById partner | partner.
          partner \<in> set (partner_getAll e (user_id (user auth))) \<and>
          sharedBy partner \<noteq> None \<and> inTimeline partner} \<and>
     (\<forall>ev \<in> set (trace (searchMetadata e auth mdto)) \<union> set (trace (searchSmart e auth sdto)) \<union>
              set (trace (getAssetsByCity e auth)) \<union> set (trace (search e auth dto)).
        \<forall>ids. searched_userIds ev = Some ids \<longrightarrow> ids = user_id (user auth) # partnersIds)"
proof -
  let ?ids = "user_id (user auth) #
     map sharedById (filter (\<lambda>partner. sharedBy partner \<noteq> None \<and> inTimeline partner)
                       (partner_getAll e (user_id (user auth))))"
  have own: "outcome (getUserIdsToSearch e auth) = Inr ?ids"
    by (rule outcome_getUserIdsToSearch)
  have shared: "set (tl ?ids) =
       {sharedById partner | partner.
          partner \<in> set (partner_getAll e (user_id (user auth))) \<and>
          sharedBy partner \<noteq> None \<and> inTimeline partner}"
    by auto
  have used: "ids = ?ids"
    if "ev \<in> set (trace (searchMetadata e auth mdto)) \<union> set (trace (searchSmart e auth sdto)) \<union>
              set (trace (getAssetsByCity e auth)) \<union> set (trace (search e auth dto))"
      and "searched_userIds ev = Some ids" for ev ids
  proof -
    from that have "outcome (getUserIdsToSearch e auth) = Inr ids"
      using searchMetadata_userIds searchSmart_userIds getAssetsByCity_userIds search_userIds
      by blast
    with own show ?thesis by simp
  qed
  from own shared used show ?thesis
    by (intro exI [of _ "tl ?ids"]) (simp only: list.sel, blast)
qed

theorem getUserIdsToSearch_example:
  "outcome (getUserIdsToSearch example_env example_auth) = Inr [''u1'', ''p1''] \<and>
   trace (getAssetsByCity example_env example_auth) =
     [Partner_getAll ''u1'', Search_getAssetsByCity [''u1'', ''p1'']] \<and>
   searched_userIds (Search_getAssetsByCity [''u1'', ''p1'']) = Some [''u1'', ''p1'']"
  using getUserIdsToSearch_own_id_then_timeline_partners [of example_env example_auth]
  by (simp add: getAssetsByCity_def run_simps searched_userIds_def example_defs)

subsection \<open>The shape of a search response\<close>

lemma searchMetadata_returns:
  "\<exists>assets' np. outcome (searchMetadata e auth dto) = Inr (mapResponse e assets' np)"
  by (auto simp add: searchMetadata_def Let_def run_simps)

lemma searchSmart_returns:
  "outcome (searchSmart e auth dto) = Inr r \<Longrightarrow> \<exists>assets' np. r = mapResponse e assets' np"
  by (auto simp add: searchSmart_def Let_def run_simps split: if_splits)

lemma search_returns:
  "outcome (search e auth dto) = Inr r \<Longrightarrow> \<exists>assets' np. r = mapResponse e assets' np"
  by (auto simp add: search_def Let_def run_simps
      split: if_splits option.splits SearchStrategy.splits prod.splits)

lemma mapResponse_shape:
  "albums (mapResponse e xs np) = \<lparr>alb_total = 0, alb_count = 0, alb_items = [], alb_facets = []\<rparr> \<and>
   ast_total (assets (mapResponse e xs np)) = length (ast_items (assets (mapResponse e xs np))) \<and>
   ast_count (assets (mapResponse e xs np)) = length (ast_items (assets (mapResponse e xs np))) \<and>
   ast_facets (assets (mapResponse e xs np)) = []"
  by (simp add: mapResponse_def)

text \<open>
  Claim C8. Every response that \<open>search\<close>, \<open>searchMetadata\<close> or \<open>searchSmart\<close>
  returns has an empty albums section (total 0, count 0, no items, no facets) and an
  assets section whose total and count are both the number of its items, with no facets.
\<close>

theorem search_response_shape:
  assumes "outcome (search e auth sdto) = Inr r \<or>
           outcome (searchMetadata e auth mdto) = Inr r \<or>
           outcome (searchSmart e auth smdto) = Inr r"
  shows "albums r = \<lparr>alb_total = 0, alb_count = 0, alb_items = [], alb_facets = []\<rparr> \<and>
         ast_total (assets r) = length (ast_items (assets r)) \<and>
         ast_count (assets r) = length (ast_items (assets r)) \<and>
         ast_facets (assets r) = []"
proof -
  from assms obtain xs np where "r = mapResponse e xs np"
    using search_returns [of e auth sdto r] searchMetadata_returns [of e auth mdto]
      searchSmart_returns [of e auth smdto r]
    by auto
  then show ?thesis
    using mapResponse_shape [of e xs np] by simp
qed


theorem search_response_shape_example:
  "outcome (search example_env example_auth example_text_dto) =
     Inr (mapResponse example_env [example_asset, example_fresh] None) \<and>
   albums (mapResponse example_env [example_asset, example_fresh] None) =
     \<lparr>alb_total = 0, alb_count = 0, alb_items = [], alb_facets = []\<rparr> \<and>
   ast_total (assets (mapResponse example_env [example_asset, example_fresh] None)) = 2 \<and>
   ast_count (assets (mapResponse example_env [example_asset, example_fresh] None)) = 2 \<and>
   ast_items (assets (mapResponse example_env [example_asset, example_fresh] None)) =
     [''a1'', ''a3''] \<and>
   ast_facets (assets (mapResponse example_env [example_asset, example_fresh] None)) = []"
proof -
  have returned: "outcome (search example_env example_auth example_text_dto) =
      Inr (mapResponse example_env [example_asset, example_fresh] None)"
    by (simp add: search_def Let_def run_simps example_defs js_defs)
  have items: "ast_items (assets (mapResponse example_env [example_asset, example_fresh] None)) =
      [''a1'', ''a3'']"
    by (simp add: mapResponse_def example_defs)
  from search_response_shape [where e = example_env and auth = example_auth
      and sdto = example_text_dto and mdto = example_metadata_dto and smdto = example_smart_dto]
    returned items
  show ?thesis by simp
qed

subsection \<open>The text strategy never announces a next page\<close>

text \<open>
  Claim C10. In the deprecated search, when \<open>dto.smart\<close> and \<open>dto.clip\<close> are both
  falsy, so that the text strategy is taken, the response that is returned has
  \<open>nextPage\<close> null, whatever the metadata search of the asset repository returns and
  whatever size was requested.
\<close>

theorem search_text_nextPage_null:
  assumes "\<not> truthy_boolean (sd_smart dto)" and "\<not> truthy_boolean (sd_clip dto)"
    and "outcome (search e auth dto) = Inr r"
  shows "nextPage (assets r) = None"
  using assms
  by (auto simp add: search_def Let_def run_simps mapResponse_def split: if_splits option.splits)

theorem search_text_nextPage_null_example:
  "\<not> truthy_boolean (sd_smart example_text_dto) \<and>
   \<not> truthy_boolean (sd_clip example_text_dto) \<and>
   outcome (search example_env example_auth example_text_dto) =
     Inr (mapResponse example_env [example_asset, example_fresh] None) \<and>
   nextPage (assets (mapResponse example_env [example_asset, example_fresh] None)) = None"
proof -
  have smart: "\<not> truthy_boolean (sd_smart example_text_dto)"
    and clip: "\<not> truthy_boolean (sd_clip example_text_dto)"
    by (simp_all add: example_defs js_defs)
  have returned: "outcome (search example_env example_auth example_text_dto) =
      Inr (mapResponse example_env [example_asset, example_fresh] None)"
    by (simp add: search_def Let_def run_simps example_defs js_defs)
  from search_text_nextPage_null [OF smart clip returned] smart clip returned
  show ?thesis by simp
qed

subsection \<open>Numbers and their strings\<close>

lemma bit_length_floorlog: "bit_length n = floorlog 2 n"
proof (induction n rule: bit_length.induct)
  case (1 n)
  then show ?case
    by (subst bit_length.simps, subst compute_floorlog) simp
qed

lemma digit_count_floorlog: "digit_count n = floorlog 10 n"
proof (induction n rule: digit_count.induct)
  case (1 n)
  then show ?case
    by (subst digit_count.simps, subst compute_floorlog) simp
qed

text \<open>Below \<open>2 ^ 53\<close> every integer is a double; from there on, rounding stays there.\<close>

lemma round_double_exact: "\<bar>i\<bar> < 2 ^ 53 \<Longrightarrow> round_double i = i"
proof -
  assume "\<bar>i\<bar> < 2 ^ 53"
  then have "nat \<bar>i\<bar> < 2 ^ 53"
    by (simp add: nat_less_iff)
  then have "bit_length (nat \<bar>i\<bar>) \<le> 53"
    by (simp add: bit_length_floorlog floorlog_le_iff)
  then show ?thesis
    by (simp add: round_double_def Let_def)
qed

lemma round_double_large:
  assumes "2 ^ 53 \<le> a"
  shows "2 ^ 53 \<le> round_double (int a)"
proof -
  let ?k = "bit_length a"
  let ?ulp = "(2::nat) ^ (?k - 53)"
  let ?q = "a div ?ulp"
  from assms have pos: "0 < a"
    by (metis gr0I not_less zero_less_numeral zero_less_power)
  from assms have k: "54 \<le> ?k"
    using floorlog_ge_SucI [of 2 53 a] by (simp add: bit_length_floorlog)
  from floorlog_bounds [OF pos, of 2] have low: "2 ^ (?k - 1) \<le> a"
    by (simp add: bit_length_floorlog)
  have "?k - 1 = 52 + (?k - 53)"
    using k by simp
  then have split: "(2::nat) ^ (?k - 1) = 2 ^ 52 * ?ulp"
    by (simp only: power_add)
  have "2 ^ 52 \<le> ?q"
  proof -
    have "2 ^ 52 * ?ulp \<le> a" using low split by simp
    then show ?thesis
      by (simp add: less_eq_div_iff_mult_less_eq)
  qed
  then have q: "2 ^ 52 * ?ulp \<le> ?q * ?ulp"
    by simp
  have ulp: "(2::nat) ^ 53 \<le> 2 ^ 52 * ?ulp"
  proof -
    have "(2::nat) ^ 53 \<le> 2 ^ (?k - 1)"
      using k by (intro power_increasing) auto
    with split show ?thesis by simp
  qed
  let ?q' = "if ?ulp < 2 * (a mod ?ulp) \<or> (2 * (a mod ?ulp) = ?ulp \<and> odd ?q) then ?q + 1 else ?q"
  have "?q * ?ulp \<le> ?q' * ?ulp"
    by simp
  with q ulp have "2 ^ 53 \<le> ?q' * ?ulp"
    by linarith
  then have "(2::int) ^ 53 \<le> int (?q' * ?ulp)"
    by (metis of_nat_le_iff of_nat_numeral of_nat_power)
  moreover have "round_double (int a) = int (?q' * ?ulp)"
    using k pos by (simp add: round_double_def Let_def)
  ultimately show ?thesis by simp
qed

lemma round_double_safe:
  assumes "v < 2 ^ 53" and "round_double (int c) = int v"
  shows "c = v"
proof (cases "c < 2 ^ 53")
  case True
  then have "round_double (int c) = int c"
    by (intro round_double_exact) (simp add: of_nat_less_iff [of c "2 ^ 53", simplified])
  with assms(2) show ?thesis by simp
next
  case False
  then have "2 ^ 53 \<le> round_double (int c)"
    by (intro round_double_large) simp
  with assms have False
    by (simp add: of_nat_less_iff [of v "2 ^ 53", simplified])
  then show ?thesis ..
qed

text \<open>
  So the shortest decimal that reads back as an integer below \<open>2 ^ 53\<close> is the integer
  itself without its trailing zeros, and its string is its decimal string.
\<close>

lemma shortest_digits_safe:
  assumes "v < 2 ^ 53"
  shows "fst (shortest_digits v n k) * 10 ^ (n - snd (shortest_digits v n k)) = v"
  using assms
proof (induction v n k rule: shortest_digits.induct)
  case (1 v n k)
  show ?case
  proof (cases "n \<le> k")
    case True
    then show ?thesis
      by (subst (1 2) shortest_digits.simps) simp
  next
    case False
    let ?p = "(10::nat) ^ (n - k)"
    let ?s = "v div ?p"
    have below: "?s * ?p = v" if "round_double (int (?s * ?p)) = int v"
      using round_double_safe [OF "1.prems" that] .
    have above: "(?s + 1) * ?p = v" if "round_double (int ((?s + 1) * ?p)) = int v"
      using round_double_safe [OF "1.prems" that] .
    show ?thesis
      using False below above "1.IH" "1.prems"
      by (subst (1 2) shortest_digits.simps) (auto simp add: Let_def)
  qed
qed

lemma digits_times_10: "0 < s \<Longrightarrow> digits (s * 10) = digits s @ [CHR ''0'']"
  by (subst digits.simps) (simp add: digit_def)

lemma digits_times_power: "0 < s \<Longrightarrow> digits (s * 10 ^ j) = digits s @ replicate j CHR ''0''"
proof (induction j)
  case 0
  then show ?case by simp
next
  case (Suc j)
  have "digits (s * 10 ^ Suc j) = digits ((s * 10 ^ j) * 10)"
    by (simp add: ac_simps)
  also have "\<dots> = digits (s * 10 ^ j) @ [CHR ''0'']"
    using Suc.prems by (intro digits_times_10) simp
  finally show ?case
    using Suc by (simp add: replicate_append_same)
qed

lemma nat_toString_safe:
  assumes "v < 2 ^ 53"
  shows "nat_toString v = digits v"
proof (cases "v = 0")
  case True
  then show ?thesis
    by (simp add: nat_toString_def digits.simps digit_def)
next
  case False
  let ?n = "digit_count v"
  let ?r = "shortest_digits v ?n 1"
  from False have pos: "0 < v" by simp
  from floorlog_bounds [OF pos, of 10] have less: "v < 10 ^ ?n"
    by (simp add: digit_count_floorlog)
  have "v < 10 ^ 16"
    using assms by simp
  then have n: "?n \<le> 16"
    by (simp add: digit_count_floorlog floorlog_le_iff)
  have no_power: "round_double (int (10 ^ ?n)) \<noteq> int v"
    using round_double_safe [OF assms, of "10 ^ ?n"] less by auto
  have exact: "fst ?r * 10 ^ (?n - snd ?r) = v"
    by (rule shortest_digits_safe [OF assms])
  from exact pos have s: "0 < fst ?r"
    by (metis mult_zero_left neq0_conv)
  have "nat_toString v = format_number (fst ?r) (snd ?r) ?n"
    using False no_power by (simp add: nat_toString_def Let_def split: prod.splits)
  also have "\<dots> = digits (fst ?r) @ replicate (?n - snd ?r) CHR ''0''"
    using n by (simp add: format_number_def)
  also have "\<dots> = digits (fst ?r * 10 ^ (?n - snd ?r))"
    using s by (simp add: digits_times_power)
  finally show ?thesis
    using exact by simp
qed

lemma toString_safe: "\<bar>i\<bar> < 2 ^ 53 \<Longrightarrow> toString i = decimal_string i"
proof -
  assume "\<bar>i\<bar> < 2 ^ 53"
  then have "nat (- i) < 2 ^ 53" and "nat i < 2 ^ 53"
    by (simp_all add: nat_less_iff)
  then show ?thesis
    by (simp add: toString_def decimal_string_def nat_toString_safe)
qed

lemma toString_plus_number_safe:
  "\<bar>a + b\<bar> < 2 ^ 53 \<Longrightarrow> toString (plus_number a b) = decimal_string (a + b)"
  by (simp add: plus_number_def round_double_exact toString_safe)

text \<open>The decimal string of a number that is not negative reads back as the number.\<close>

lemma digit_value_digit: "d < 10 \<Longrightarrow> digit_value (digit d) = d"
proof -
  assume "d < 10"
  then have "d \<in> {0, 1, 2, 3, 4, 5, 6, 7, 8, 9}" by auto
  then show ?thesis
    by (auto simp add: digit_value_def digit_def)
qed

lemma decimal_value_snoc: "decimal_value (s @ [c]) = 10 * decimal_value s + digit_value c"
  by (simp add: decimal_value_def)

lemma decimal_value_digits: "decimal_value (digits n) = n"
proof (induction n rule: digits.induct)
  case (1 n)
  show ?case
  proof (cases "n < 10")
    case True
    then show ?thesis
      by (subst digits.simps) (simp add: decimal_value_def digit_value_digit)
  next
    case False
    with 1 show ?thesis
      by (subst digits.simps) (simp add: decimal_value_snoc digit_value_digit)
  qed
qed

lemma decimal_value_decimal_string: "0 \<le> i \<Longrightarrow> int (decimal_value (decimal_string i)) = i"
  by (simp add: decimal_string_def decimal_value_digits)

subsection \<open>Pagination of the metadata search and of the smart search\<close>

text \<open>
  Claim C7, as the code has it. \<open>searchMetadata\<close> and \<open>searchSmart\<close> paginate
  alike. The page asked of the search repository is the requested page, or 1 when the
  request names none; the size is the requested size, or 250 (\<open>searchMetadata\<close>) or
  100 (\<open>searchSmart\<close>) when the request names none or names 0. \<open>nextPage\<close> of the
  response is null when the repository reports no next page, and otherwise the string
  that the language writes for the number \<open>page + 1\<close>. That string is the decimal
  string of \<open>page + 1\<close> whenever \<open>page + 1\<close> is below \<open>2 ^ 53\<close> in absolute
  value. \<open>searchSmart\<close> gets as far as the repository when the smart-search feature
  is enabled.
\<close>

theorem pagination_defaults:
  "(\<exists>pagination options result.
      trace (searchMetadata e auth mdto) =
        [Partner_getAll (user_id (user auth)), Search_searchMetadata pagination options] \<and>
      sp_page pagination = (case md_page mdto of None \<Rightarrow> 1 | Some p \<Rightarrow> p) \<and>
      sp_size pagination =
        (case md_size mdto of None \<Rightarrow> 250 | Some s \<Rightarrow> if s = 0 then 250 else s) \<and>
      result = search_searchMetadata e pagination options \<and>
      (\<exists>r. outcome (searchMetadata e auth mdto) = Inr r \<and>
           nextPage (assets r) =
             (if hasNextPage result
              then Some (toString (plus_number (sp_page pagination) 1)) else None))) \<and>
   (features e SMART_SEARCH \<longrightarrow>
    (\<exists>pagination options result encodeText.
      trace (searchSmart e auth sdto) =
        [Config_requireFeature SMART_SEARCH, Config_getConfig,
         Partner_getAll (user_id (user auth)), encodeText,
         Search_searchSmart pagination options] \<and>
      sp_page pagination = (case sm_page sdto of None \<Rightarrow> 1 | Some p \<Rightarrow> p) \<and>
      sp_size pagination =
        (case sm_size sdto of None \<Rightarrow> 100 | Some s \<Rightarrow> if s = 0 then 100 else s) \<and>
      result = search_searchSmart e pagination options \<and>
      (\<exists>r. outcome (searchSmart e auth sdto) = Inr r \<and>
           nextPage (assets r) =
             (if hasNextPage result
              then Some (toString (plus_number (sp_page pagination) 1)) else None)))) \<and>
   (\<bar>page + 1\<bar> < 2 ^ 53 \<longrightarrow> toString (plus_number page 1) = decimal_string (page + 1))"
  by (simp add: searchMetadata_def searchSmart_def Let_def run_simps mapResponse_def
      nullish_def or_number_def toString_plus_number_safe split: option.splits)

theorem pagination_defaults_example:
  "features example_env SMART_SEARCH \<and>
   md_page example_metadata_dto = None \<and> md_size example_metadata_dto = Some 0 \<and>
   trace (searchMetadata example_env example_auth example_metadata_dto) =
     [Partner_getAll ''u1'',
      Search_searchMetadata \<lparr>sp_page = 1, sp_size = 250\<rparr>
        \<lparr>mo_dto = example_metadata_dto, mo_checksum = None, mo_userIds = [''u1'', ''p1''],
         orderDirection = ''DESC''\<rparr>] \<and>
   outcome (searchMetadata example_env example_auth example_metadata_dto) =
     Inr (mapResponse example_env [example_asset] (Some ''2'')) \<and>
   sm_page example_smart_dto = Some 9 \<and> sm_size example_smart_dto = None \<and>
   trace (searchSmart example_env example_auth example_smart_dto) =
     [Config_requireFeature SMART_SEARCH, Config_getConfig, Partner_getAll ''u1'',
      MachineLearning_encodeText ''http://ml:3003'' ''cat''
        \<lparr>clip_enabled = True, modelName = ''ViT-B-32'', duplicateThreshold = 3 / 100\<rparr>,
      Search_searchSmart \<lparr>sp_page = 9, sp_size = 100\<rparr>
        \<lparr>so_dto = Some example_smart_dto, so_userIds = [''u1'', ''p1''],
         so_embedding = [1, 2], so_withArchived = None\<rparr>] \<and>
   outcome (searchSmart example_env example_auth example_smart_dto) =
     Inr (mapResponse example_env [example_asset] (Some ''10'')) \<and>
   decimal_string (9 + 1) = ''10''"
  using pagination_defaults [of example_env example_auth example_metadata_dto example_smart_dto 9]
  by (simp add: searchMetadata_def searchSmart_def run_simps example_defs js_defs number_defs
      decimal_string_def)

text \<open>
  Claim C7 as it was stated has \<open>nextPage\<close> be the decimal string of \<open>page + 1\<close> for
  every page. For the page \<open>2 ^ 53\<close> the sum \<open>page + 1\<close> is not a double and is
  rounded back to \<open>2 ^ 53\<close>, and for the page \<open>10 ^ 21\<close> the number is written
  with an exponent: in neither case is \<open>nextPage\<close> the decimal string of the page
  plus one.
\<close>

theorem nextPage_of_a_large_page:
  "sm_page example_large_dto = Some 9007199254740992 \<and>
   outcome (searchSmart example_env example_auth example_large_dto) =
     Inr (mapResponse example_env [example_asset] (Some ''9007199254740992'')) \<and>
   decimal_string (9007199254740992 + 1) = ''9007199254740993'' \<and>
   toString (plus_number 9007199254740992 1) \<noteq> decimal_string (9007199254740992 + 1) \<and>
   md_page example_huge_dto = Some 1000000000000000000000 \<and>
   outcome (searchMetadata example_env example_auth example_huge_dto) =
     Inr (mapResponse example_env [example_asset] (Some ''1e+21'')) \<and>
   decimal_string (1000000000000000000000 + 1) = ''1000000000000000000001'' \<and>
   toString (plus_number 1000000000000000000000 1) \<noteq>
     decimal_string (1000000000000000000000 + 1)"
  by (simp add: searchMetadata_def searchSmart_def run_simps example_defs js_defs number_defs
      decimal_string_def)

subsection \<open>The status of a duplicate-detection job\<close>

text \<open>
  Claim C3, as the code has it. \<open>handleSearchDuplicates\<close> never throws and returns
  one job status, decided by the first of these tests that applies: \<open>FAILED\<close> when
  the asset is not found; \<open>SKIPPED\<close> when the asset is not visible or already has a
  duplicate id; \<open>FAILED\<close> when the asset, being visible and without a duplicate id,
  has no preview image (\<open>resizePath\<close>); \<open>SUCCESS\<close> otherwise.
\<close>

theorem handleSearchDuplicates_status:
  "outcome (handleSearchDuplicates e id') =
     Inr (case asset_getById e id' of
            None \<Rightarrow> FAILED
          | Some asset \<Rightarrow>
              if \<not> isVisible asset \<or> truthy_string (duplicateId asset) then SKIPPED
              else if \<not> truthy_string (resizePath asset) then FAILED
              else SUCCESS)"
  by (simp add: handleSearchDuplicates_def Let_def run_simps split: option.splits list.splits)

theorem handleSearchDuplicates_status_example:
  "outcome (handleSearchDuplicates example_env ''a1'') = Inr SUCCESS \<and>
   outcome (handleSearchDuplicates example_env ''a2'') = Inr SKIPPED \<and>
   outcome (handleSearchDuplicates example_env ''zz'') = Inr FAILED"
  using handleSearchDuplicates_status [of example_env "''a1''"]
    handleSearchDuplicates_status [of example_env "''a2''"]
    handleSearchDuplicates_status [of example_env "''zz''"]
  by (simp add: example_defs js_defs)

text \<open>
  Claim C3 as it was stated has an asset without a preview image fail. The hidden asset
  \<open>a2\<close> of the example has none, and its job is skipped: the visibility test comes
  first.
\<close>

theorem hidden_asset_without_preview_is_skipped:
  "asset_getById example_env ''a2'' = Some example_hidden \<and>
   \<not> isVisible example_hidden \<and>
   \<not> truthy_string (resizePath example_hidden) \<and>
   outcome (handleSearchDuplicates example_env ''a2'') = Inr SKIPPED \<and>
   outcome (handleSearchDuplicates example_env ''a2'') \<noteq> Inr FAILED"
  by (simp add: handleSearchDuplicates_def Let_def run_simps example_defs js_defs)

subsection \<open>The upsert of a duplicate group\<close>

lemma first_existing:
  "(case map the (filter truthy_string ds) of d # _ \<Rightarrow> f d | [] \<Rightarrow> g) =
   (case List.find truthy_string ds of Some (Some d) \<Rightarrow> f d | _ \<Rightarrow> g)"
  by (induction ds) (auto simp add: truthy_string_def split: option.splits)

lemma find_None_filter: "(List.find P xs = None) = (filter P xs = [])"
  by (induction xs) auto

lemma trace_handleSearchDuplicates_lookup:
  assumes "asset_getById e id' = Some asset"
    and "isVisible asset"
    and "\<not> truthy_string (duplicateId asset)"
    and "truthy_string (resizePath asset)"
  shows "trace (handleSearchDuplicates e id') =
     (let q = \<lparr>ds_assetId = asset_id asset,
               ds_maxDistance = duplicateThreshold (clip (machineLearning (config e))),
               ds_userIds = [ownerId asset]\<rparr>;
          duplicateAssets = search_searchDuplicates e q;
          duplicateIds = map the (filter truthy_string (map dup_duplicateId duplicateAssets))
      in [Config_getConfig, Asset_getById id', Search_searchDuplicates q] @
         (if duplicateAssets = [] then []
          else Logger_debug (''Found '' @ toString (int (length duplicateAssets)) @
                 '' duplicates for asset '' @ asset_id asset) #
               (if duplicateIds = [] then [Crypto_randomUUID] else []) @
               [AssetDuplicate_upsert
                  (case duplicateIds of d # _ \<Rightarrow> d | [] \<Rightarrow> crypto_randomUUID e)
                  (map assetId duplicateAssets @ [asset_id asset]) duplicateIds]) @
         [Asset_upsertJobStatus (asset_id asset)])"
  using assms
  by (simp add: handleSearchDuplicates_def Let_def run_simps split: list.splits)

text \<open>
  Claim C1. Take a run of \<open>handleSearchDuplicates\<close> that reaches the duplicate lookup:
  the asset is found, is visible, has no duplicate id and has a preview image. When the
  lookup returns a non-empty list, the run makes exactly one duplicate-group upsert. Its
  group identifier is the first duplicate id, in the order of the result, that one of the
  returned duplicates carries (a duplicate id that is null or the empty string is not
  one), and the identifier drawn from \<open>randomUUID\<close> when none carries one; the random
  identifier is drawn in that case only. Its list of asset ids is the asset ids of the
  returned duplicates followed by the id of the asset itself. When the lookup returns
  the empty list, the run makes no duplicate-group upsert.
\<close>

theorem handleSearchDuplicates_single_upsert:
  assumes "asset_getById e id' = Some asset"
    and "isVisible asset"
    and "\<not> truthy_string (duplicateId asset)"
    and "truthy_string (resizePath asset)"
    and "duplicateAssets = search_searchDuplicates e
           \<lparr>ds_assetId = asset_id asset,
            ds_maxDistance = duplicateThreshold (clip (machineLearning (config e))),
            ds_userIds = [ownerId asset]\<rparr>"
    and "groupId = (case List.find truthy_string (map dup_duplicateId duplicateAssets) of
                      Some (Some d) \<Rightarrow> d
                    | _ \<Rightarrow> crypto_randomUUID e)"
  shows "filter is_duplicate_upsert (trace (handleSearchDuplicates e id')) =
           (if duplicateAssets = [] then []
            else [AssetDuplicate_upsert groupId
                    (map assetId duplicateAssets @ [asset_id asset])
                    (map the (filter truthy_string (map dup_duplicateId duplicateAssets)))]) \<and>
         (Crypto_randomUUID \<in> set (trace (handleSearchDuplicates e id')) \<longleftrightarrow>
           duplicateAssets \<noteq> [] \<and>
           List.find truthy_string (map dup_duplicateId duplicateAssets) = None)"
proof -
  let ?ds = "map dup_duplicateId duplicateAssets"
  have gid: "groupId =
      (case map the (filter truthy_string ?ds) of d # _ \<Rightarrow> d | [] \<Rightarrow> crypto_randomUUID e)"
    using assms(6)
      first_existing [where f = "\<lambda>d. d" and g = "crypto_randomUUID e" and ds = ?ds]
    by simp
  show ?thesis
    using assms(5) gid
    by (simp add: trace_handleSearchDuplicates_lookup [OF assms(1-4)] Let_def
        is_duplicate_upsert_def find_None_filter)
qed


theorem handleSearchDuplicates_single_upsert_example:
  "filter is_duplicate_upsert (trace (handleSearchDuplicates example_env ''a1'')) =
     [AssetDuplicate_upsert ''g7'' [''b1'', ''b2'', ''b3'', ''a1''] [''g7'', ''g9'']] \<and>
   Crypto_randomUUID \<notin> set (trace (handleSearchDuplicates example_env ''a1'')) \<and>
   filter is_duplicate_upsert (trace (handleSearchDuplicates example_env ''a3'')) =
     [AssetDuplicate_upsert ''uuid-1'' [''b4'', ''a3''] []] \<and>
   Crypto_randomUUID \<in> set (trace (handleSearchDuplicates example_env ''a3'')) \<and>
   filter is_duplicate_upsert (trace (handleSearchDuplicates example_env ''a4'')) = []"
proof -
  have a1: "asset_getById example_env ''a1'' = Some example_asset"
    and a3: "asset_getById example_env ''a3'' = Some example_fresh"
    and a4: "asset_getById example_env ''a4'' = Some example_unique"
    by (simp_all add: example_defs)
  have visible: "isVisible example_asset" "isVisible example_fresh" "isVisible example_unique"
    and ungrouped: "\<not> truthy_string (duplicateId example_asset)"
      "\<not> truthy_string (duplicateId example_fresh)"
      "\<not> truthy_string (duplicateId example_unique)"
    and preview: "truthy_string (resizePath example_asset)"
      "truthy_string (resizePath example_fresh)"
      "truthy_string (resizePath example_unique)"
    by (simp_all add: example_defs js_defs)
  from handleSearchDuplicates_single_upsert
      [OF a1 visible(1) ungrouped(1) preview(1) refl refl]
    handleSearchDuplicates_single_upsert
      [OF a3 visible(2) ungrouped(2) preview(2) refl refl]
    handleSearchDuplicates_single_upsert
      [OF a4 visible(3) ungrouped(3) preview(3) refl refl]
  show ?thesis
    by (simp add: example_defs js_defs)
qed

subsection \<open>The missing query\<close>

text \<open>
  Claim C5. In a call of the deprecated search that has passed the \<open>SEARCH\<close> feature
  check, the operation throws the error with the message "Missing query" if and only if
  \<open>dto.q\<close> and \<open>dto.query\<close> are both absent or empty; it then has called
  nothing but the feature check and the configuration. When at least one of the two is
  a non-empty string, the operation does not throw from this check and goes on to its
  next call.
\<close>

theorem search_missing_query:
  assumes "features e SEARCH"
  shows "(outcome (search e auth dto) = Inl (Error ''Missing query'')) =
           (\<not> truthy_string (sd_q dto) \<and> \<not> truthy_string (sd_query dto)) \<and>
         (if truthy_string (sd_q dto) \<or> truthy_string (sd_query dto)
          then \<exists>next rest. trace (search e auth dto) =
                 Config_requireFeature SEARCH # Config_getConfig # next # rest
          else search e auth dto =
                 ([Config_requireFeature SEARCH, Config_getConfig], Inl (Error ''Missing query'')))"
  using assms
  by (auto simp add: io_eq_iff search_def Let_def run_simps or_string_def truthy_string_def
      split: option.splits SearchStrategy.splits prod.splits if_splits)

theorem search_missing_query_example:
  "features example_env SEARCH \<and>
   \<not> truthy_string (sd_q example_empty_dto) \<and>
   \<not> truthy_string (sd_query example_empty_dto) \<and>
   search example_env example_auth example_empty_dto =
     ([Config_requireFeature SEARCH, Config_getConfig], Inl (Error ''Missing query'')) \<and>
   \<not> truthy_string (sd_q example_text_dto) \<and>
   truthy_string (sd_query example_text_dto) \<and>
   outcome (search example_env example_auth example_text_dto) \<noteq> Inl (Error ''Missing query'')"
proof -
  have on: "features example_env SEARCH"
    by (simp add: example_defs)
  from search_missing_query [OF on, of example_auth example_empty_dto]
    search_missing_query [OF on, of example_auth example_text_dto]
  show ?thesis
    by (simp add: example_defs js_defs)
qed

subsection \<open>The dispatch of the deprecated search\<close>

text \<open>
  Claim C2. Take a call of the deprecated search with a non-empty query that has passed
  the \<open>SEARCH\<close> feature check. When \<open>dto.smart\<close> or \<open>dto.clip\<close> is truthy, the
  \<open>SMART_SEARCH\<close> feature is required as well; if it is enabled the query text is
  encoded and the smart search of the search repository answers, and if it is disabled
  the operation fails there. When both are falsy, the metadata search of the asset
  repository answers, and neither the feature check nor the encoder nor the search
  repository is called. Each run is exactly one of these three.
\<close>

theorem search_dispatch:
  assumes "features e SEARCH"
    and "or_string (sd_q dto) (sd_query dto) = Some query" and "query \<noteq> []"
    and "userIds = user_id (user auth) #
           map sharedById (filter (\<lambda>partner. sharedBy partner \<noteq> None \<and> inTimeline partner)
                             (partner_getAll e (user_id (user auth))))"
    and "ml = machineLearning (config e)"
    and "page = (case sd_page dto of None \<Rightarrow> 1 | Some p \<Rightarrow> p)"
    and "pagination = \<lparr>sp_page = page, sp_size = or_number (sd_size dto) 100\<rparr>"
    and "options = \<lparr>so_dto = None, so_userIds = userIds,
                     so_embedding = machineLearning_encodeText e (url ml) query (clip ml),
                     so_withArchived = Some (truthy_boolean (sd_withArchived dto))\<rparr>"
    and "result = search_searchSmart e pagination options"
  shows "if truthy_boolean (sd_smart dto) \<or> truthy_boolean (sd_clip dto) then
           if features e SMART_SEARCH then
             search e auth dto =
               ([Config_requireFeature SEARCH, Config_getConfig,
                 Config_requireFeature SMART_SEARCH, Partner_getAll (user_id (user auth)),
                 MachineLearning_encodeText (url ml) query (clip ml),
                 Search_searchSmart pagination options],
                Inr (mapResponse e (items result)
                       (if hasNextPage result then Some (toString (plus_number page 1)) else None)))
           else
             search e auth dto =
               ([Config_requireFeature SEARCH, Config_getConfig,
                 Config_requireFeature SMART_SEARCH],
                Inl (FeatureDisabled SMART_SEARCH))
         else
           search e auth dto =
             ([Config_requireFeature SEARCH, Config_getConfig,
               Partner_getAll (user_id (user auth)),
               Asset_searchMetadata query userIds (or_number (sd_size dto) 250)],
              Inr (mapResponse e
                     (asset_searchMetadata e query userIds (or_number (sd_size dto) 250)) None))"
  using assms
  by (simp add: io_eq_iff search_def Let_def run_simps nullish_def)

theorem search_dispatch_example:
  "search example_env example_auth example_text_dto =
     ([Config_requireFeature SEARCH, Config_getConfig, Partner_getAll ''u1'',
       Asset_searchMetadata ''dog'' [''u1'', ''p1''] 250],
      Inr (mapResponse example_env [example_asset, example_fresh] None)) \<and>
   search example_env example_auth example_clip_dto =
     ([Config_requireFeature SEARCH, Config_getConfig, Config_requireFeature SMART_SEARCH,
       Partner_getAll ''u1'',
       MachineLearning_encodeText ''http://ml:3003'' ''dog''
         \<lparr>clip_enabled = True, modelName = ''ViT-B-32'', duplicateThreshold = 3 / 100\<rparr>,
       Search_searchSmart \<lparr>sp_page = 1, sp_size = 100\<rparr>
         \<lparr>so_dto = None, so_userIds = [''u1'', ''p1''], so_embedding = [1, 2],
          so_withArchived = Some False\<rparr>],
      Inr (mapResponse example_env [example_asset] (Some ''2''))) \<and>
   search example_env_text_only example_auth example_clip_dto =
     ([Config_requireFeature SEARCH, Config_getConfig, Config_requireFeature SMART_SEARCH],
      Inl (FeatureDisabled SMART_SEARCH))"
proof -
  have on: "features example_env SEARCH" "features example_env_text_only SEARCH"
    by (simp_all add: example_defs)
  have query: "or_string (sd_q example_text_dto) (sd_query example_text_dto) = Some ''dog''"
    "or_string (sd_q example_clip_dto) (sd_query example_clip_dto) = Some ''dog''"
    by (simp_all add: example_defs js_defs)
  have nonempty: "''dog'' \<noteq> []"
    by simp
  from search_dispatch [OF on(1) query(1) nonempty refl refl refl refl refl refl,
      of example_auth]
    search_dispatch [OF on(1) query(2) nonempty refl refl refl refl refl refl,
      of example_auth]
    search_dispatch [OF on(2) query(2) nonempty refl refl refl refl refl refl,
      of example_auth]
  show ?thesis
    by (simp add: example_defs js_defs number_defs)
qed

subsection \<open>Feature flags come first\<close>

text \<open>
  Claim C6. \<open>getExploreData\<close> and the deprecated search require the \<open>SEARCH\<close>
  feature and \<open>searchSmart\<close> requires the \<open>SMART_SEARCH\<close> feature, each as its
  first call, before any call to a repository or to machine learning. When the required
  feature is disabled, the operation makes no other call and fails without a result.
\<close>

theorem feature_checked_first:
  "(\<exists>rest. trace (getExploreData e auth) = Config_requireFeature SEARCH # rest) \<and>
   (\<exists>rest. trace (search e auth dto) = Config_requireFeature SEARCH # rest) \<and>
   (\<exists>rest. trace (searchSmart e auth sdto) = Config_requireFeature SMART_SEARCH # rest) \<and>
   (\<not> features e SEARCH \<longrightarrow>
      getExploreData e auth = ([Config_requireFeature SEARCH], Inl (FeatureDisabled SEARCH)) \<and>
      search e auth dto = ([Config_requireFeature SEARCH], Inl (FeatureDisabled SEARCH))) \<and>
   (\<not> features e SMART_SEARCH \<longrightarrow>
      searchSmart e auth sdto =
        ([Config_requireFeature SMART_SEARCH], Inl (FeatureDisabled SMART_SEARCH)))"
  by (simp add: io_eq_iff getExploreData_def search_def searchSmart_def run_simps)

theorem feature_checked_first_example:
  "\<not> features example_env_off SEARCH \<and> \<not> features example_env_off SMART_SEARCH \<and>
   getExploreData example_env_off example_auth =
     ([Config_requireFeature SEARCH], Inl (FeatureDisabled SEARCH)) \<and>
   search example_env_off example_auth example_text_dto =
     ([Config_requireFeature SEARCH], Inl (FeatureDisabled SEARCH)) \<and>
   searchSmart example_env_off example_auth example_smart_dto =
     ([Config_requireFeature SMART_SEARCH], Inl (FeatureDisabled SMART_SEARCH))"
  using feature_checked_first [of example_env_off example_auth example_text_dto example_smart_dto]
  by (simp add: example_defs)


subsection \<open>Queueing duplicate detection for every asset\<close>

text \<open>
  The pagination loop ends at the first page after which the repository reports no
  further page, and has then requested and consumed the pages up to that one, in order.
\<close>

lemma usePagination_from_finite:
  assumes fetch: "\<And>p. getNextPage p = call (fetch p) (page p)"
    and body: "\<And>xs. body xs = call (queue xs) ()"
    and last: "\<not> hasNextPage (page \<lparr>pg_take = ps, pg_skip = skip + n * ps\<rparr>)"
    and more: "\<And>k. k < n \<Longrightarrow> hasNextPage (page \<lparr>pg_take = ps, pg_skip = skip + k * ps\<rparr>)"
  shows "usePagination_from ps getNextPage body skip =
           Some (concat (map (\<lambda>k. [fetch \<lparr>pg_take = ps, pg_skip = skip + k * ps\<rparr>,
                                    queue (items (page \<lparr>pg_take = ps, pg_skip = skip + k * ps\<rparr>))])
                          [0..<Suc n]),
                 Inr ())"
  using last more
proof (induction n arbitrary: skip)
  case 0
  then show ?case
    by (subst usePagination_from.simps) (simp add: fetch body call_def)
next
  case (Suc n)
  have here: "hasNextPage (page \<lparr>pg_take = ps, pg_skip = skip\<rparr>)"
    using Suc.prems(2) [of 0] by simp
  have last': "\<not> hasNextPage (page \<lparr>pg_take = ps, pg_skip = (skip + ps) + n * ps\<rparr>)"
    using Suc.prems(1) by (simp add: add.assoc)
  have more': "\<And>k. k < n \<Longrightarrow> hasNextPage (page \<lparr>pg_take = ps, pg_skip = (skip + ps) + k * ps\<rparr>)"
    using Suc.prems(2) [of "Suc _"] by (simp add: add.assoc)
  have shift: "[0..<Suc (Suc n)] = 0 # map Suc [0..<Suc n]"
    by (simp only: map_Suc_upt upt_conv_Cons [of 0 "Suc (Suc n)"])
  show ?case
    apply (subst usePagination_from.simps)
    apply (simp only: Suc.IH [OF last' more'] shift)
    apply (simp add: fetch body call_def here comp_def add.assoc del: upt_Suc)
    done
qed

text \<open>When neither the repository nor the consumer throws, the loop does not throw.\<close>

lemma usePagination_from_outcome:
  assumes "usePagination_from ps getNextPage body skip = Some y"
    and "\<forall>p. \<exists>t x. getNextPage p = (t, Inr x)"
    and "\<forall>xs. \<exists>t. body xs = (t, Inr ())"
  shows "snd y = Inr ()"
  using assms
proof (induction rule: usePagination_from.raw_induct [rotated 1, consumes 1, case_names step])
  case (step loop ps getNextPage body skip y)
  obtain t x where g: "getNextPage \<lparr>pg_take = ps, pg_skip = skip\<rparr> = (t, Inr x)"
    using step.prems(1) by blast
  obtain t' where b: "body (items x) = (t', Inr ())"
    using step.prems(2) by blast
  show ?case
  proof (cases "hasNextPage x")
    case True
    with step.hyps g b obtain y' where
      "loop ps getNextPage body (skip + ps) = Some y'" and "snd y = snd y'"
      by (auto simp add: bind_eq_Some_conv split: prod.splits)
    with step.IH step.prems show ?thesis by simp
  next
    case False
    with step.hyps g b show ?thesis by auto
  qed
qed

text \<open>A repository that reports a further page after every page keeps the loop going.\<close>

lemma usePagination_from_endless:
  assumes "\<forall>p. \<exists>t x. getNextPage p = (t, Inr x) \<and> hasNextPage x"
    and "\<forall>xs. \<exists>t. body xs = (t, Inr ())"
  shows "usePagination_from ps getNextPage body skip = None"
proof (rule ccontr)
  assume "usePagination_from ps getNextPage body skip \<noteq> None"
  then obtain y where "usePagination_from ps getNextPage body skip = Some y"
    by blast
  then show False
    using assms
  proof (induction rule: usePagination_from.raw_induct [rotated 1, consumes 1, case_names step])
    case (step loop ps getNextPage body skip y)
    obtain t x where g: "getNextPage \<lparr>pg_take = ps, pg_skip = skip\<rparr> = (t, Inr x)"
      and more: "hasNextPage x"
      using step.prems(1) by blast
    obtain t' where b: "body (items x) = (t', Inr ())"
      using step.prems(2) by blast
    from step.hyps g b more obtain y' where "loop ps getNextPage body (skip + ps) = Some y'"
      by (auto simp add: bind_eq_Some_conv)
    with step.IH step.prems show ?case by blast
  qed
qed

lemma queue_loop_finite:
  assumes "pagination = (\<lambda>k. \<lparr>pg_take = JOBS_ASSET_PAGINATION_SIZE e,
                                pg_skip = k * JOBS_ASSET_PAGINATION_SIZE e\<rparr>)"
    and "page = (\<lambda>k. if truthy_boolean force then asset_getAll e (pagination k)
                      else asset_getWithout e (pagination k) DUPLICATE)"
    and "fetch = (\<lambda>k. if truthy_boolean force then Asset_getAll (pagination k)
                       else Asset_getWithout (pagination k) DUPLICATE)"
    and "jobs = (\<lambda>k. map (\<lambda>asset. \<lparr>job_name = DUPLICATE_DETECTION, job_data_id = asset_id asset\<rparr>)
                        (items (page k)))"
    and "\<not> hasNextPage (page n)" and "\<forall>k<n. hasNextPage (page k)"
  shows "usePagination (JOBS_ASSET_PAGINATION_SIZE e)
            (\<lambda>pagination.
               if truthy_boolean force
               then call (Asset_getAll pagination) (asset_getAll e pagination)
               else call (Asset_getWithout pagination DUPLICATE)
                      (asset_getWithout e pagination DUPLICATE))
            (\<lambda>assets'.
               call (Job_queueAll
                       (map (\<lambda>asset. \<lparr>job_name = DUPLICATE_DETECTION, job_data_id = asset_id asset\<rparr>)
                          assets')) ())
         = Some (concat (map (\<lambda>k. [fetch k, Job_queueAll (jobs k)]) [0..<Suc n]), Inr ())"
proof (cases "truthy_boolean force")
  case True
  show ?thesis
    unfolding usePagination_def
    apply (subst usePagination_from_finite [where n = n and fetch = Asset_getAll
          and page = "asset_getAll e"
          and queue = "\<lambda>xs. Job_queueAll (map (\<lambda>asset. \<lparr>job_name = DUPLICATE_DETECTION,
                                                    job_data_id = asset_id asset\<rparr>) xs)"])
    using assms True by simp_all
next
  case False
  show ?thesis
    unfolding usePagination_def
    apply (subst usePagination_from_finite [where n = n
          and fetch = "\<lambda>p. Asset_getWithout p DUPLICATE"
          and page = "\<lambda>p. asset_getWithout e p DUPLICATE"
          and queue = "\<lambda>xs. Job_queueAll (map (\<lambda>asset. \<lparr>job_name = DUPLICATE_DETECTION,
                                                    job_data_id = asset_id asset\<rparr>) xs)"])
    using assms False by simp_all
qed

lemma queue_loop_outcome:
  assumes "usePagination (JOBS_ASSET_PAGINATION_SIZE e)
            (\<lambda>pagination.
               if truthy_boolean force
               then call (Asset_getAll pagination) (asset_getAll e pagination)
               else call (Asset_getWithout pagination DUPLICATE)
                      (asset_getWithout e pagination DUPLICATE))
            (\<lambda>assets'.
               call (Job_queueAll
                       (map (\<lambda>asset. \<lparr>job_name = DUPLICATE_DETECTION, job_data_id = asset_id asset\<rparr>)
                          assets')) ()) = Some y"
  shows "snd y = Inr ()"
  using assms unfolding usePagination_def
  by (rule usePagination_from_outcome) (simp_all add: call_def)

text \<open>
  Claim C4. \<open>handleQueueSearchDuplicates\<close> returns \<open>SKIPPED\<close>, having called no
  repository, if and only if machine learning or the CLIP model is disabled in the
  configuration. Otherwise every status it returns is \<open>SUCCESS\<close>, and it does return
  once the asset repository reports a page without a successor: it has then requested
  the pages one after the other (all visible assets when the job is forced, the assets
  without duplicate information otherwise) and has queued, page by page, one
  \<open>DUPLICATE_DETECTION\<close> job for every asset of every page. It never returns
  \<open>FAILED\<close>.
\<close>

theorem handleQueueSearchDuplicates_status:
  assumes "ml = machineLearning (config e)"
    and "pagination = (\<lambda>k. \<lparr>pg_take = JOBS_ASSET_PAGINATION_SIZE e,
                                pg_skip = k * JOBS_ASSET_PAGINATION_SIZE e\<rparr>)"
    and "page = (\<lambda>k. if truthy_boolean force then asset_getAll e (pagination k)
                      else asset_getWithout e (pagination k) DUPLICATE)"
    and "fetch = (\<lambda>k. if truthy_boolean force then Asset_getAll (pagination k)
                       else Asset_getWithout (pagination k) DUPLICATE)"
    and "jobs = (\<lambda>k. map (\<lambda>asset. \<lparr>job_name = DUPLICATE_DETECTION, job_data_id = asset_id asset\<rparr>)
                        (items (page k)))"
  shows
    "(\<not> ml_enabled ml \<or> \<not> clip_enabled (clip ml) \<longrightarrow>
        handleQueueSearchDuplicates e force = Some ([Config_getConfig], Inr SKIPPED)) \<and>
     (ml_enabled ml \<and> clip_enabled (clip ml) \<and>
      \<not> hasNextPage (page n) \<and> (\<forall>k<n. hasNextPage (page k)) \<longrightarrow>
        handleQueueSearchDuplicates e force =
          Some (Config_getConfig # concat (map (\<lambda>k. [fetch k, Job_queueAll (jobs k)]) [0..<Suc n]),
                Inr SUCCESS)) \<and>
     (ml_enabled ml \<and> clip_enabled (clip ml) \<longrightarrow>
        (\<forall>t r. handleQueueSearchDuplicates e force = Some (t, r) \<longrightarrow> r = Inr SUCCESS)) \<and>
     ((\<exists>t. handleQueueSearchDuplicates e force = Some (t, Inr SKIPPED)) \<longleftrightarrow>
        \<not> ml_enabled ml \<or> \<not> clip_enabled (clip ml)) \<and>
     (\<forall>t. handleQueueSearchDuplicates e force \<noteq> Some (t, Inr FAILED))"
proof -
  have skipped: "handleQueueSearchDuplicates e force = Some ([Config_getConfig], Inr SKIPPED)"
    if "\<not> ml_enabled ml \<or> \<not> clip_enabled (clip ml)"
    using that assms(1)
    by (auto simp add: handleQueueSearchDuplicates_def await_partial_def getConfig_def
        call_def ret_def)
  have success: "r = Inr SUCCESS"
    if on: "ml_enabled ml" "clip_enabled (clip ml)"
      and returned: "handleQueueSearchDuplicates e force = Some (t, r)"
    for t r
  proof -
    from returned on assms(1) obtain y where
      loop: "usePagination (JOBS_ASSET_PAGINATION_SIZE e)
            (\<lambda>pagination.
               if truthy_boolean force
               then call (Asset_getAll pagination) (asset_getAll e pagination)
               else call (Asset_getWithout pagination DUPLICATE)
                      (asset_getWithout e pagination DUPLICATE))
            (\<lambda>assets'.
               call (Job_queueAll
                       (map (\<lambda>asset. \<lparr>job_name = DUPLICATE_DETECTION, job_data_id = asset_id asset\<rparr>)
                          assets')) ()) = Some y"
      and r: "r = outcome (await y (\<lambda>_. ret SUCCESS))"
      by (auto simp add: handleQueueSearchDuplicates_def await_partial_def getConfig_def
          outcome_def bind_eq_Some_conv call_def [of Config_getConfig])
    from queue_loop_outcome [OF loop] have "outcome y = Inr ()"
      by (simp add: outcome_def)
    with r show ?thesis
      by (simp add: outcome_await outcome_ret)
  qed
  have finite: "handleQueueSearchDuplicates e force =
          Some (Config_getConfig # concat (map (\<lambda>k. [fetch k, Job_queueAll (jobs k)]) [0..<Suc n]),
                Inr SUCCESS)"
    if "ml_enabled ml" "clip_enabled (clip ml)" "\<not> hasNextPage (page n)"
      "\<forall>k<n. hasNextPage (page k)"
    using that(1,2) assms(1)
    by (simp add: handleQueueSearchDuplicates_def await_partial_def getConfig_def
        call_def [of Config_getConfig] queue_loop_finite [OF assms(2-5) that(3,4)]
        ret_def await_def del: upt_Suc)
  show ?thesis
    using skipped success finite by fastforce
qed


theorem handleQueueSearchDuplicates_status_example:
  "handleQueueSearchDuplicates example_env (Some True) =
     Some ([Config_getConfig,
            Asset_getAll \<lparr>pg_take = 2, pg_skip = 0\<rparr>,
            Job_queueAll [\<lparr>job_name = DUPLICATE_DETECTION, job_data_id = ''a1''\<rparr>,
                          \<lparr>job_name = DUPLICATE_DETECTION, job_data_id = ''a3''\<rparr>],
            Asset_getAll \<lparr>pg_take = 2, pg_skip = 2\<rparr>,
            Job_queueAll []],
           Inr SUCCESS) \<and>
   handleQueueSearchDuplicates example_env_ml_off (Some True) =
     Some ([Config_getConfig], Inr SKIPPED)"
proof -
  note on = handleQueueSearchDuplicates_status [OF refl refl refl refl refl,
      where e = example_env and force = "Some True" and n = 1,
      THEN conjunct2, THEN conjunct1, rule_format]
  note off = handleQueueSearchDuplicates_status [OF refl refl refl refl refl,
      where e = example_env_ml_off and force = "Some True" and n = 0,
      THEN conjunct1, rule_format]
  have "handleQueueSearchDuplicates example_env_ml_off (Some True) =
     Some ([Config_getConfig], Inr SKIPPED)"
    by (rule off) (simp add: example_defs)
  moreover have "handleQueueSearchDuplicates example_env (Some True) =
     Some ([Config_getConfig,
            Asset_getAll \<lparr>pg_take = 2, pg_skip = 0\<rparr>,
            Job_queueAll [\<lparr>job_name = DUPLICATE_DETECTION, job_data_id = ''a1''\<rparr>,
                          \<lparr>job_name = DUPLICATE_DETECTION, job_data_id = ''a3''\<rparr>],
            Asset_getAll \<lparr>pg_take = 2, pg_skip = 2\<rparr>,
            Job_queueAll []],
           Inr SUCCESS)"
    apply (subst on)
     apply (simp add: example_defs js_defs)
    apply (simp add: example_defs js_defs)
    done
  ultimately show ?thesis by simp
qed

end
